theory Spec2Isabelle
  imports Complex_Main "HOL-Library.Multiset"
begin

section \<open>Data model\<close>

text \<open>
  The service in \<^verbatim>\<open>services/crud.py\<close> works on five tables through an ORM session.
  A calendar date is represented by its proleptic Gregorian ordinal
  (\<^verbatim>\<open>datetime.date.toordinal()\<close>, 1 is 0001-01-01): comparison of dates is comparison
  of ordinals and adding \<^verbatim>\<open>timedelta(days=n)\<close> adds \<open>n\<close>. Python's \<^verbatim>\<open>float\<close> columns are
  only stored and copied by the service, never computed on; they are reals here.
\<close>

type_synonym date = nat

text \<open>\<^verbatim>\<open>datetime.date.max.toordinal()\<close>, the ordinal of 9999-12-31.\<close>

definition MAXORDINAL :: nat where
  "MAXORDINAL = 3652059"

text \<open>
  Modelled from the spec: the table declarations of \<^verbatim>\<open>database/models.py\<close> are missing.
  Ids are integers. Genre, Actor and Language rows have an id and a name; a Country row
  has an id, a code and an optional name. A Movie row has a generated id and the seven
  scalar columns; it owns its country and its lists of genres, actors and languages,
  held here as the related rows themselves (related rows are never updated or deleted,
  so a row and a reference to it carry the same information). An attribute of a movie
  object can be \<^verbatim>\<open>None\<close>, so every scalar column is an option; which rows the movie
  table accepts is decided when the session commits (see \<open>commit\<close> below).

  Records share one name space, so the fields of the source carry a prefix: \<open>n_\<close> for
  the named rows, \<open>k_\<close> for a country, \<open>m_\<close> for a movie, \<open>c_\<close> and \<open>u_\<close> for the
  create and update schemas.
\<close>

record NameModel =
  n_id :: int
  n_name :: string

type_synonym GenreModel = NameModel
type_synonym ActorModel = NameModel
type_synonym LanguageModel = NameModel

record CountryModel =
  k_id :: int
  k_code :: string
  k_name :: "string option"

record MovieModel =
  m_id :: int
  m_name :: "string option"
  m_date :: "date option"
  m_score :: "real option"
  m_overview :: "string option"
  m_status :: "string option"
  m_budget :: "real option"
  m_revenue :: "real option"
  m_country :: CountryModel
  m_genres :: "GenreModel list"
  m_actors :: "ActorModel list"
  m_languages :: "LanguageModel list"

text \<open>The database as the session sees it: one list of rows per table.\<close>

record store =
  movies :: "MovieModel list"
  genres :: "GenreModel list"
  actors :: "ActorModel list"
  languages :: "LanguageModel list"
  countries :: "CountryModel list"

text \<open>
  Every \<^verbatim>\<open>raise\<close> of the source and every exception of a library call it makes is a
  value. \<open>HTTPException\<close> carries the status code and the detail message.
\<close>

datatype error =
    HTTPException nat string
  | MultipleResultsFound
  | ZeroDivisionError
  | ValueError string
  | OverflowError
  | DBAPIError
  | IntegrityError

text \<open>
  The status the framework answers with: an \<open>HTTPException\<close> gives its own code, a
  \<open>ValueError\<close> raised by a schema validator is reported as a request validation
  error (422), any other exception is a server error.
\<close>

fun status_code_of :: "error \<Rightarrow> nat" where
  "status_code_of (HTTPException c d) = c"
| "status_code_of (ValueError msg) = 422"
| "status_code_of e = 500"

section \<open>Rendering integers and dates\<close>

text \<open>\<^verbatim>\<open>str(n)\<close> for a Python integer, as the f-strings of the source use it.\<close>

definition digit :: "nat \<Rightarrow> char" where
  "digit n = ''0123456789'' ! (n mod 10)"

function str_nat :: "nat \<Rightarrow> string" where
  "str_nat n = (if n < 10 then [digit n] else str_nat (n div 10) @ [digit n])"
  by pat_completeness auto
termination
  by (relation "measure (\<lambda>n. n)") auto

declare str_nat.simps [simp del]

definition str_int :: "int \<Rightarrow> string" where
  "str_int i = (if i < 0 then CHR ''-'' # str_nat (nat (- i)) else str_nat (nat i))"

text \<open>
  \<^verbatim>\<open>str(d)\<close> for a \<^verbatim>\<open>datetime.date\<close> is its ISO format \<^verbatim>\<open>YYYY-MM-DD\<close>. The
  conversion from the ordinal to year, month and day follows the standard library's
  \<^verbatim>\<open>_ord2ymd\<close>.
\<close>

definition DAYS_IN_MONTH :: "nat list" where
  "DAYS_IN_MONTH = [0, 31, 28, 31, 30, 31, 30, 31, 31, 30, 31, 30, 31]"

definition DAYS_BEFORE_MONTH :: "nat list" where
  "DAYS_BEFORE_MONTH = [0, 0, 31, 59, 90, 120, 151, 181, 212, 243, 273, 304, 334]"

definition ord2ymd :: "nat \<Rightarrow> nat \<times> nat \<times> nat" where
  "ord2ymd ordinal =
     (let n = ordinal - 1;
          n400 = n div 146097; n = n mod 146097;
          n100 = n div 36524; n = n mod 36524;
          n4 = n div 1461; n = n mod 1461;
          n1 = n div 365; n = n mod 365;
          year = n400 * 400 + 1 + n100 * 100 + n4 * 4 + n1
      in if n1 = 4 \<or> n100 = 4 then (year - 1, 12, 31)
         else
           let leapyear = (n1 = 3 \<and> (n4 \<noteq> 24 \<or> n100 = 3));
               month = (n + 50) div 32;
               preceding = DAYS_BEFORE_MONTH ! month + (if month > 2 \<and> leapyear then 1 else 0)
           in if preceding > n
              then let month' = month - 1;
                       preceding' = preceding -
                         (DAYS_IN_MONTH ! month' + (if month' = 2 \<and> leapyear then 1 else 0))
                   in (year, month', n - preceding' + 1)
              else (year, month, n - preceding + 1))"

definition zero_pad :: "nat \<Rightarrow> string \<Rightarrow> string" where
  "zero_pad w s = replicate (w - length s) CHR ''0'' @ s"

definition isoformat :: "date \<Rightarrow> string" where
  "isoformat d =
     (case ord2ymd d of (y, m, dd) \<Rightarrow>
        zero_pad 4 (str_nat y) @ ''-'' @ zero_pad 2 (str_nat m) @ ''-'' @ zero_pad 2 (str_nat dd))"

section \<open>Query results\<close>

text \<open>
  \<^verbatim>\<open>Result.scalar_one_or_none()\<close>: no row gives \<open>None\<close>, one row gives that row, more
  than one row raises \<open>MultipleResultsFound\<close>.
\<close>

fun scalar_one_or_none :: "'a list \<Rightarrow> error + 'a option" where
  "scalar_one_or_none [] = Inr None"
| "scalar_one_or_none [x] = Inr (Some x)"
| "scalar_one_or_none (x # y # zs) = Inl MultipleResultsFound"

text \<open>\<^verbatim>\<open>Result.first()\<close>: the first row, or \<open>None\<close> when there is none.\<close>

fun first :: "'a list \<Rightarrow> 'a option" where
  "first [] = None"
| "first (x # xs) = Some x"

text \<open>\<^verbatim>\<open>Result.unique()\<close>: every row once, at its first occurrence.\<close>

definition unique :: "'a list \<Rightarrow> 'a list" where
  "unique xs = rev (remdups (rev xs))"

text \<open>\<^verbatim>\<open>order_by(desc(MovieModel.id))\<close>.\<close>

definition order_by_desc_id :: "MovieModel list \<Rightarrow> MovieModel list" where
  "order_by_desc_id ms = rev (sort_key m_id ms)"

section \<open>Listing movies\<close>

definition get_obj_count :: "store \<Rightarrow> int" where
  "get_obj_count db = int (length (movies db))"

record MovieList =
  l_movies :: "MovieModel list"
  prev_page :: "string option"
  next_page :: "string option"
  total_pages :: int
  total_items :: int

definition page_link :: "int \<Rightarrow> int \<Rightarrow> string" where
  "page_link page per_page =
     ''/theater/movies/?page='' @ str_int page @ ''&per_page='' @ str_int per_page"

text \<open>
  \<^verbatim>\<open>get_movies\<close>. \<open>select_page\<close> is the statement: the movies in descending id order,
  \<open>offset\<close> of them skipped, at most \<open>limit\<close> of them returned (the eager loading of the
  relations adds no row: a movie row holds them). The statement is executed first; a
  negative OFFSET or LIMIT is left to the database engine, which rejects it (the route
  only lets \<open>page \<ge> 1\<close> and \<open>1 \<le> per_page \<le> 20\<close> through). The page count is computed
  before the emptiness check, so \<open>per_page = 0\<close> divides by zero.
\<close>

definition select_page :: "MovieModel list \<Rightarrow> nat \<Rightarrow> nat \<Rightarrow> MovieModel list" where
  "select_page ms offset limit = take limit (drop offset (order_by_desc_id ms))"

definition get_movies :: "store \<Rightarrow> int \<Rightarrow> int \<Rightarrow> error + MovieList" where
  "get_movies db page per_page =
     (let offset = (page - 1) * per_page in
      if offset < 0 \<or> per_page < 0 then Inl DBAPIError
      else
        let ms = unique (select_page (movies db) (nat offset) (nat per_page));
            total = get_obj_count db
        in if per_page = 0 then Inl ZeroDivisionError
           else
             let pages = (total + per_page - 1) div per_page;
                 prev = (if page > 1 then Some (page_link (page - 1) per_page) else None);
                 nxt = (if page < pages then Some (page_link (page + 1) per_page) else None)
             in if ms = [] then Inl (HTTPException 404 ''No movies found.'')
                else Inr \<lparr>l_movies = ms, prev_page = prev, next_page = nxt,
                          total_pages = pages, total_items = total\<rparr>)"

section \<open>Schemas\<close>

text \<open>\<^verbatim>\<open>MovieCreateSchema\<close>: every field is required.\<close>

record MovieCreateSchema =
  c_name :: string
  c_date :: date
  c_score :: real
  c_overview :: string
  c_status :: string
  c_budget :: real
  c_revenue :: real
  c_country :: string
  c_genres :: "string list"
  c_actors :: "string list"
  c_languages :: "string list"

text \<open>
  \<^verbatim>\<open>MovieCreateSchema.date_validation\<close>, with the day \<^verbatim>\<open>datetime.date.today()\<close> returns as
  first argument. A date is truthy, so the check runs for every date; adding the
  timedelta raises \<open>OverflowError\<close> when the result is after \<^verbatim>\<open>date.max\<close>.
\<close>

definition date_validation :: "date \<Rightarrow> date option \<Rightarrow> error + date option" where
  "date_validation today val =
     (case val of
        None \<Rightarrow> Inr None
      | Some d \<Rightarrow>
          if today + 365 > MAXORDINAL then Inl OverflowError
          else
            let max_allowed_date = today + 365
            in if d > max_allowed_date
               then Inl (ValueError ''Date cannot be more than one year in the future'')
               else Inr (Some d))"

text \<open>
  \<^verbatim>\<open>MovieUpdateSchema\<close>: every field is optional with default \<^verbatim>\<open>None\<close>. A field is
  unset (outer \<open>None\<close>), set to null (\<open>Some None\<close>) or set to a value.
\<close>

record MovieUpdateSchema =
  u_name :: "string option option"
  u_date :: "date option option"
  u_score :: "real option option"
  u_overview :: "string option option"
  u_status :: "string option option"
  u_budget :: "real option option"
  u_revenue :: "real option option"

text \<open>One entry of the dictionary \<^verbatim>\<open>model_dump\<close> returns: a field name with its value.\<close>

datatype item =
    Name "string option"
  | Date "date option"
  | Score "real option"
  | Overview "string option"
  | Status "string option"
  | Budget "real option"
  | Revenue "real option"

definition entry :: "('a \<Rightarrow> item) \<Rightarrow> 'a option \<Rightarrow> item list" where
  "entry field v = (case v of None \<Rightarrow> [] | Some x \<Rightarrow> [field x])"

text \<open>\<^verbatim>\<open>movie.model_dump(exclude_unset=True)\<close>: the fields that were set, in declaration order.\<close>

definition model_dump_exclude_unset :: "MovieUpdateSchema \<Rightarrow> item list" where
  "model_dump_exclude_unset movie =
     entry Name (u_name movie) @ entry Date (u_date movie) @ entry Score (u_score movie) @
     entry Overview (u_overview movie) @ entry Status (u_status movie) @
     entry Budget (u_budget movie) @ entry Revenue (u_revenue movie)"

text \<open>\<^verbatim>\<open>setattr(db_movie, key, value)\<close>.\<close>

fun setattr :: "MovieModel \<Rightarrow> item \<Rightarrow> MovieModel" where
  "setattr m (Name v) = m\<lparr>m_name := v\<rparr>"
| "setattr m (Date v) = m\<lparr>m_date := v\<rparr>"
| "setattr m (Score v) = m\<lparr>m_score := v\<rparr>"
| "setattr m (Overview v) = m\<lparr>m_overview := v\<rparr>"
| "setattr m (Status v) = m\<lparr>m_status := v\<rparr>"
| "setattr m (Budget v) = m\<lparr>m_budget := v\<rparr>"
| "setattr m (Revenue v) = m\<lparr>m_revenue := v\<rparr>"

section \<open>Creating a movie\<close>

definition conflict_detail :: "string \<Rightarrow> date \<Rightarrow> string" where
  "conflict_detail name d =
     ''A movie with the name '' @ [CHR 0x27] @ name @ [CHR 0x27] @
     '' and release date '' @ [CHR 0x27] @ isoformat d @ [CHR 0x27] @ '' already exists.''"

text \<open>
  \<^verbatim>\<open>name_data_unique_validaton\<close>. The two SQL equalities never hold for a NULL column.
\<close>

definition name_data_unique_validaton :: "store \<Rightarrow> MovieCreateSchema \<Rightarrow> error + unit" where
  "name_data_unique_validaton db movie_data =
     (case scalar_one_or_none
             (filter (\<lambda>m. m_name m = Some (c_name movie_data) \<and> m_date m = Some (c_date movie_data))
                (movies db)) of
        Inl e \<Rightarrow> Inl e
      | Inr (Some existing_movie) \<Rightarrow>
          Inl (HTTPException 409 (conflict_detail (c_name movie_data) (c_date movie_data)))
      | Inr None \<Rightarrow> Inr ())"

text \<open>
  Modelled from the spec: the id a table generates for an inserted row (the engine and
  the table declarations are missing) is one more than the largest id in the table.
\<close>

definition next_id :: "int list \<Rightarrow> int" where
  "next_id ids = fold max ids 0 + 1"

text \<open>
  \<^verbatim>\<open>get_or_create(db, model, **kwargs)\<close> on the table of \<open>model\<close>: \<open>rid\<close> reads a row's
  id, \<open>key\<close> the column the keyword argument filters by, and \<open>new i k\<close> is the row
  \<^verbatim>\<open>model(**kwargs)\<close> after flush and refresh gave it the id \<open>i\<close>. It returns the instance
  and the table as the session sees it afterwards.
\<close>

definition get_or_create ::
    "('r \<Rightarrow> int) \<Rightarrow> ('r \<Rightarrow> 'k) \<Rightarrow> (int \<Rightarrow> 'k \<Rightarrow> 'r) \<Rightarrow> 'r list \<Rightarrow> 'k \<Rightarrow> error + 'r \<times> 'r list" where
  "get_or_create rid key new tbl k =
     (case scalar_one_or_none (filter (\<lambda>r. key r = k) tbl) of
        Inl e \<Rightarrow> Inl e
      | Inr (Some instance) \<Rightarrow> Inr (instance, tbl)
      | Inr None \<Rightarrow>
          let instance = new (next_id (map rid tbl)) k
          in Inr (instance, tbl @ [instance]))"

text \<open>The list comprehensions of \<^verbatim>\<open>create_film\<close>: one \<^verbatim>\<open>get_or_create\<close> per name, in order.\<close>

fun get_or_create_each ::
    "('r \<Rightarrow> int) \<Rightarrow> ('r \<Rightarrow> 'k) \<Rightarrow> (int \<Rightarrow> 'k \<Rightarrow> 'r) \<Rightarrow> 'r list \<Rightarrow> 'k list \<Rightarrow>
       error + 'r list \<times> 'r list" where
  "get_or_create_each rid key new tbl [] = Inr ([], tbl)"
| "get_or_create_each rid key new tbl (k # ks) =
     (case get_or_create rid key new tbl k of
        Inl e \<Rightarrow> Inl e
      | Inr (instance, tbl') \<Rightarrow>
          (case get_or_create_each rid key new tbl' ks of
             Inl e \<Rightarrow> Inl e
           | Inr (instances, tbl'') \<Rightarrow> Inr (instance # instances, tbl'')))"

definition new_named :: "int \<Rightarrow> string \<Rightarrow> NameModel" where
  "new_named i name = \<lparr>n_id = i, n_name = name\<rparr>"

definition new_country :: "int \<Rightarrow> string \<Rightarrow> CountryModel" where
  "new_country i code = \<lparr>k_id = i, k_code = code, k_name = None\<rparr>"

text \<open>
  \<^verbatim>\<open>db.commit()\<close> of a session that wrote to the movie table. The constraints the
  declaration of that table puts on its rows (\<^verbatim>\<open>database/models.py\<close> is missing) are the
  parameter \<open>admits\<close>: the commit raises \<open>IntegrityError\<close> for a movie table they
  exclude, and otherwise makes the session's database the stored one.
\<close>

definition commit :: "(MovieModel list \<Rightarrow> bool) \<Rightarrow> store \<Rightarrow> error + store" where
  "commit admits db = (if admits (movies db) then Inr db else Inl IntegrityError)"

text \<open>
  \<^verbatim>\<open>create_film\<close>. The result pairs what the call returns or raises with the database
  afterwards. Modelled from the spec: the session scope of \<^verbatim>\<open>database.get_db\<close> is missing;
  an exception leaves the database as it was (the rows flushed so far are rolled back).
\<close>

definition create_film ::
    "(MovieModel list \<Rightarrow> bool) \<Rightarrow> store \<Rightarrow> MovieCreateSchema \<Rightarrow>
       (error + MovieModel option) \<times> store" where
  "create_film admits db movie_data =
     (case name_data_unique_validaton db movie_data of
        Inl e \<Rightarrow> (Inl e, db)
      | Inr u \<Rightarrow>
     (case get_or_create_each n_id n_name new_named (genres db) (c_genres movie_data) of
        Inl e \<Rightarrow> (Inl e, db)
      | Inr (gs, genres') \<Rightarrow>
     (case get_or_create_each n_id n_name new_named (actors db) (c_actors movie_data) of
        Inl e \<Rightarrow> (Inl e, db)
      | Inr (as, actors') \<Rightarrow>
     (case get_or_create_each n_id n_name new_named (languages db) (c_languages movie_data) of
        Inl e \<Rightarrow> (Inl e, db)
      | Inr (ls, languages') \<Rightarrow>
     (case get_or_create k_id k_code new_country (countries db) (c_country movie_data) of
        Inl e \<Rightarrow> (Inl e, db)
      | Inr (country, countries') \<Rightarrow>
          let new_movie =
                \<lparr>m_id = next_id (map m_id (movies db)),
                 m_name = Some (c_name movie_data),
                 m_date = Some (c_date movie_data),
                 m_score = Some (c_score movie_data),
                 m_overview = Some (c_overview movie_data),
                 m_status = Some (c_status movie_data),
                 m_budget = Some (c_budget movie_data),
                 m_revenue = Some (c_revenue movie_data),
                 m_country = country,
                 m_genres = gs,
                 m_actors = as,
                 m_languages = ls\<rparr>;
              db' = \<lparr>movies = movies db @ [new_movie], genres = genres', actors = actors',
                     languages = languages', countries = countries'\<rparr>
          in (case commit admits db' of
                Inl e \<Rightarrow> (Inl e, db)
              | Inr db'' \<Rightarrow>
                  let movie_with_relations =
                        first (filter (\<lambda>m. m_id m = m_id new_movie) (movies db''))
                  in (Inr movie_with_relations, db'')))))))"

section \<open>Reading, deleting and updating a movie\<close>

definition not_found :: error where
  "not_found = HTTPException 404 ''Movie with the given ID was not found.''"

definition get_movie_with_id :: "int \<Rightarrow> store \<Rightarrow> error + MovieModel" where
  "get_movie_with_id movie_id db =
     (case scalar_one_or_none (unique (filter (\<lambda>m. m_id m = movie_id) (movies db))) of
        Inl e \<Rightarrow> Inl e
      | Inr None \<Rightarrow> Inl not_found
      | Inr (Some movie) \<Rightarrow> Inr movie)"

text \<open>\<^verbatim>\<open>Response(status_code=...)\<close> with no content has an empty body.\<close>

record Response =
  status_code :: nat
  body :: string

text \<open>
  \<^verbatim>\<open>delete_movie\<close>. \<^verbatim>\<open>db.delete(db_movie)\<close> deletes the row by its primary key; the
  tables of the related rows are not written to. Removing a row breaks no constraint
  on the rows of a table, so this commit does not fail.
\<close>

definition delete_movie :: "store \<Rightarrow> int \<Rightarrow> (error + Response) \<times> store" where
  "delete_movie db movie_id =
     (case scalar_one_or_none (filter (\<lambda>m. m_id m = movie_id) (movies db)) of
        Inl e \<Rightarrow> (Inl e, db)
      | Inr None \<Rightarrow> (Inl not_found, db)
      | Inr (Some db_movie) \<Rightarrow>
          (Inr \<lparr>status_code = 204, body = []\<rparr>,
           db\<lparr>movies := filter (\<lambda>m. m_id m \<noteq> m_id db_movie) (movies db)\<rparr>))"

text \<open>
  \<^verbatim>\<open>update_movie\<close>. The loop assigns every item of the dump to the fetched row; the
  commit writes the row back by its primary key and the refresh reads it again.
\<close>

definition update_movie ::
    "(MovieModel list \<Rightarrow> bool) \<Rightarrow> store \<Rightarrow> int \<Rightarrow> MovieUpdateSchema \<Rightarrow>
       (error + MovieModel) \<times> store" where
  "update_movie admits db movie_id movie =
     (case scalar_one_or_none (filter (\<lambda>m. m_id m = movie_id) (movies db)) of
        Inl e \<Rightarrow> (Inl e, db)
      | Inr None \<Rightarrow> (Inl not_found, db)
      | Inr (Some db_movie) \<Rightarrow>
          let data = model_dump_exclude_unset movie;
              db_movie' = foldl setattr db_movie data;
              db' = db\<lparr>movies :=
                       map (\<lambda>m. if m_id m = m_id db_movie then db_movie' else m) (movies db)\<rparr>
          in (case commit admits db' of
                Inl e \<Rightarrow> (Inl e, db)
              | Inr db'' \<Rightarrow> (Inr db_movie', db'')))"

section \<open>Sequences of calls\<close>

text \<open>The calls of the service that write to the database, and the database after one.\<close>

datatype call =
    CreateFilm MovieCreateSchema
  | DeleteMovie int
  | UpdateMovie int MovieUpdateSchema

fun after_call :: "(MovieModel list \<Rightarrow> bool) \<Rightarrow> store \<Rightarrow> call \<Rightarrow> store" where
  "after_call admits db (CreateFilm movie_data) = snd (create_film admits db movie_data)"
| "after_call admits db (DeleteMovie movie_id) = snd (delete_movie db movie_id)"
| "after_call admits db (UpdateMovie movie_id movie) = snd (update_movie admits db movie_id movie)"

section \<open>Invariants of the data model\<close>

text \<open>
  The (name, date) pair is unique among the movies that have both (a NULL equals
  nothing).
\<close>

definition name_date_unique :: "MovieModel list \<Rightarrow> bool" where
  "name_date_unique ms =
     distinct (map (\<lambda>m. (m_name m, m_date m))
                 (filter (\<lambda>m. m_name m \<noteq> None \<and> m_date m \<noteq> None) ms))"

text \<open>
  The natural key of a related row (the name of a genre, actor or language, the code of
  a country) is unique in its table.
\<close>

definition natural_keys_unique :: "store \<Rightarrow> bool" where
  "natural_keys_unique db =
     (distinct (map n_name (genres db)) \<and> distinct (map n_name (actors db)) \<and>
      distinct (map n_name (languages db)) \<and> distinct (map k_code (countries db)))"

text \<open>The tables of the related rows only grow.\<close>

definition related_grow :: "store \<Rightarrow> store \<Rightarrow> bool" where
  "related_grow db db' =
     (set (genres db) \<subseteq> set (genres db') \<and> set (actors db) \<subseteq> set (actors db') \<and>
      set (languages db) \<subseteq> set (languages db') \<and> set (countries db) \<subseteq> set (countries db'))"

text \<open>A movie table without constraints, for the examples.\<close>

definition any_table :: "MovieModel list \<Rightarrow> bool" where
  "any_table ms = True"

section \<open>Example data\<close>

text \<open>A small database and inputs on which the theorems below are instantiated.\<close>

definition ex_country :: CountryModel where
  "ex_country = \<lparr>k_id = 1, k_code = ''US'', k_name = None\<rparr>"

definition ex_movie :: "int \<Rightarrow> string \<Rightarrow> date \<Rightarrow> MovieModel" where
  "ex_movie i name d =
     \<lparr>m_id = i, m_name = Some name, m_date = Some d, m_score = Some 85,
      m_overview = Some ''...'', m_status = Some ''Released'', m_budget = Some 100,
      m_revenue = Some 400, m_country = ex_country,
      m_genres = [\<lparr>n_id = 1, n_name = ''Sci-Fi''\<rparr>], m_actors = [\<lparr>n_id = 1, n_name = ''A''\<rparr>],
      m_languages = [\<lparr>n_id = 1, n_name = ''English''\<rparr>]\<rparr>"

definition ex_db :: store where
  "ex_db =
     \<lparr>movies = [ex_movie 1 ''Dune'' 739252, ex_movie 2 ''Alien'' 739252, ex_movie 3 ''Heat'' 739253,
                ex_movie 4 ''Solaris'' 739254, ex_movie 5 ''Brazil'' 739255],
      genres = [\<lparr>n_id = 1, n_name = ''Sci-Fi''\<rparr>],
      actors = [\<lparr>n_id = 1, n_name = ''A''\<rparr>],
      languages = [\<lparr>n_id = 1, n_name = ''English''\<rparr>],
      countries = [ex_country]\<rparr>"

definition ex_page :: MovieList where
  "ex_page =
     \<lparr>l_movies = [ex_movie 3 ''Heat'' 739253, ex_movie 2 ''Alien'' 739252],
      prev_page = Some ''/theater/movies/?page=1&per_page=2'',
      next_page = Some ''/theater/movies/?page=3&per_page=2'',
      total_pages = 3, total_items = 5\<rparr>"

definition ex_create :: MovieCreateSchema where
  "ex_create =
     \<lparr>c_name = ''Dune'', c_date = 739252, c_score = 85, c_overview = ''...'',
      c_status = ''Released'', c_budget = 100, c_revenue = 400, c_country = ''US'',
      c_genres = [''Sci-Fi''], c_actors = [''A''], c_languages = [''English'']\<rparr>"

definition ex_patch :: MovieUpdateSchema where
  "ex_patch =
     \<lparr>u_name = Some (Some ''Heat 2''), u_date = None, u_score = Some (Some 90),
      u_overview = None, u_status = None, u_budget = None, u_revenue = None\<rparr>"

definition ex_null_date :: MovieUpdateSchema where
  "ex_null_date =
     \<lparr>u_name = None, u_date = Some None, u_score = None,
      u_overview = None, u_status = None, u_budget = None, u_revenue = None\<rparr>"

definition ex_empty :: store where
  "ex_empty = \<lparr>movies = [], genres = [], actors = [], languages = [], countries = []\<rparr>"

definition ex_create2 :: MovieCreateSchema where
  "ex_create2 = ex_create\<lparr>c_name := ''Alien'', c_genres := [''Horror'', ''Sci-Fi'']\<rparr>"

definition ex_db1 :: store where
  "ex_db1 =
     \<lparr>movies = [ex_movie 1 ''Dune'' 739252],
      genres = [\<lparr>n_id = 1, n_name = ''Sci-Fi''\<rparr>],
      actors = [\<lparr>n_id = 1, n_name = ''A''\<rparr>],
      languages = [\<lparr>n_id = 1, n_name = ''English''\<rparr>],
      countries = [ex_country]\<rparr>"

definition ex_db1' :: store where
  "ex_db1' = ex_db1\<lparr>movies := [(ex_movie 1 ''Dune'' 739252)\<lparr>m_date := None\<rparr>]\<rparr>"

definition ex_alien :: MovieModel where
  "ex_alien =
     (ex_movie 2 ''Alien'' 739252)
       \<lparr>m_genres := [\<lparr>n_id = 2, n_name = ''Horror''\<rparr>, \<lparr>n_id = 1, n_name = ''Sci-Fi''\<rparr>]\<rparr>"

definition ex_db2 :: store where
  "ex_db2 =
     \<lparr>movies = [(ex_movie 1 ''Dune'' 739252)\<lparr>m_date := None\<rparr>, ex_alien],
      genres = [\<lparr>n_id = 1, n_name = ''Sci-Fi''\<rparr>, \<lparr>n_id = 2, n_name = ''Horror''\<rparr>],
      actors = [\<lparr>n_id = 1, n_name = ''A''\<rparr>],
      languages = [\<lparr>n_id = 1, n_name = ''English''\<rparr>],
      countries = [ex_country]\<rparr>"

definition ex_rename :: MovieUpdateSchema where
  "ex_rename =
     \<lparr>u_name = Some (Some ''Dune''), u_date = None, u_score = None,
      u_overview = None, u_status = None, u_budget = None, u_revenue = None\<rparr>"

definition ex_dup_db :: store where
  "ex_dup_db =
     \<lparr>movies = [ex_movie 1 ''Dune'' 739252, ex_alien\<lparr>m_name := Some ''Dune''\<rparr>],
      genres = [\<lparr>n_id = 1, n_name = ''Sci-Fi''\<rparr>, \<lparr>n_id = 2, n_name = ''Horror''\<rparr>],
      actors = [\<lparr>n_id = 1, n_name = ''A''\<rparr>],
      languages = [\<lparr>n_id = 1, n_name = ''English''\<rparr>],
      countries = [ex_country]\<rparr>"

section \<open>Facts about query results\<close>

lemma distinct_unique: "distinct (unique xs)"
  by (simp add: unique_def)


lemma unique_Nil_iff: "unique xs = [] \<longleftrightarrow> xs = []"
  by (simp add: unique_def)

lemma length_unique_le: "length (unique xs) \<le> length xs"
  by (simp add: unique_def length_remdups_leq[of "rev xs", simplified])

lemma sorted_wrt_remdups_sub: "sorted_wrt P xs \<Longrightarrow> sorted_wrt P (remdups xs)"
  by (induction xs) auto

lemma sorted_wrt_unique: "sorted_wrt P xs \<Longrightarrow> sorted_wrt P (unique xs)"
  unfolding unique_def
  by (simp add: sorted_wrt_rev sorted_wrt_remdups_sub)



lemma length_order_by: "length (order_by_desc_id ms) = length ms"
  by (simp add: order_by_desc_id_def)


section \<open>Facts about listing\<close>

lemma ceil_div_aux:
  assumes p: "0 < (p::int)"
  shows "(n + p - 1) div p = - (- n div p)"
proof (cases "n mod p = 0")
  case True
  have "n + p - 1 = p * (n div p) + (p - 1)"
    using True mult_div_mod_eq[of p n] by simp
  then have "(n + p - 1) div p = n div p"
    using p by (intro int_div_pos_eq[where r = "p - 1"]) auto
  moreover have "- n div p = - (n div p)"
    using True p by (simp add: zdiv_zminus1_eq_if)
  ultimately show ?thesis by simp
next
  case False
  have "0 \<le> n mod p" "n mod p < p"
    using p by simp_all
  with False have r: "0 < n mod p" "n mod p < p"
    by simp_all
  have "n + p - 1 = p * (n div p + 1) + (n mod p - 1)"
    using mult_div_mod_eq[of p n] by (simp add: algebra_simps)
  then have "(n + p - 1) div p = n div p + 1"
    using r by (intro int_div_pos_eq[where r = "n mod p - 1"]) auto
  moreover have "- n div p = - (n div p) - 1"
    using False p by (simp add: zdiv_zminus1_eq_if)
  ultimately show ?thesis by simp
qed

lemma ceil_div:
  "0 < (p::int) \<Longrightarrow> (n + p - 1) div p = \<lceil>real_of_int n / real_of_int p\<rceil>"
  by (simp add: ceil_div_aux ceiling_divide_eq_div)

lemma get_movies_valid:
  assumes "1 \<le> page" "1 \<le> per_page"
  shows "get_movies db page per_page =
           (if select_page (movies db) (nat ((page - 1) * per_page)) (nat per_page) = []
            then Inl (HTTPException 404 ''No movies found.'')
            else Inr \<lparr>l_movies =
                        unique (select_page (movies db) (nat ((page - 1) * per_page)) (nat per_page)),
                      prev_page = (if page > 1 then Some (page_link (page - 1) per_page) else None),
                      next_page = (if page < (get_obj_count db + per_page - 1) div per_page
                                   then Some (page_link (page + 1) per_page) else None),
                      total_pages = (get_obj_count db + per_page - 1) div per_page,
                      total_items = get_obj_count db\<rparr>)"
proof -
  have off: "\<not> (page - 1) * per_page < 0"
    using assms by (simp add: not_less)
  have pp: "\<not> per_page < 0" "per_page \<noteq> 0"
    using assms by simp_all
  show ?thesis
    unfolding get_movies_def Let_def
    by (simp only: off pp unique_Nil_iff if_False simp_thms)
qed

lemma get_movies_Inr_pos:
  assumes "get_movies db page per_page = Inr r"
  shows "0 < per_page" and "0 \<le> (page - 1) * per_page"
  using assms by (auto simp: get_movies_def Let_def split: if_splits)

lemma get_movies_Inr_fields:
  assumes "get_movies db page per_page = Inr r"
  shows "l_movies r = unique (select_page (movies db) (nat ((page - 1) * per_page)) (nat per_page))"
    and "prev_page r = (if page > 1 then Some (page_link (page - 1) per_page) else None)"
    and "next_page r = (if page < total_pages r then Some (page_link (page + 1) per_page) else None)"
    and "total_pages r = (total_items r + per_page - 1) div per_page"
    and "total_items r = int (length (movies db))"
    and "l_movies r \<noteq> []"
  using assms
  by (auto simp: get_movies_def Let_def get_obj_count_def split: if_splits)

lemma select_page_Nil_iff:
  assumes "0 < limit"
  shows "select_page ms offset limit = [] \<longleftrightarrow> length ms \<le> offset"
  using assms by (auto simp: select_page_def length_order_by)

lemma ex_pk: "distinct (map m_id (movies ex_db))"
  by (simp add: ex_db_def ex_movie_def)

lemma ex_page_link: "page_link 1 2 = ''/theater/movies/?page=1&per_page=2''"
  by (simp add: page_link_def str_int_def str_nat.simps digit_def)

lemma ex_order_by:
  "order_by_desc_id (movies ex_db) =
     [ex_movie 5 ''Brazil'' 739255, ex_movie 4 ''Solaris'' 739254, ex_movie 3 ''Heat'' 739253,
      ex_movie 2 ''Alien'' 739252, ex_movie 1 ''Dune'' 739252]"
  by (simp add: order_by_desc_id_def ex_db_def ex_movie_def)

lemma ex_unique:
  "unique [ex_movie 3 ''Heat'' 739253, ex_movie 2 ''Alien'' 739252] =
     [ex_movie 3 ''Heat'' 739253, ex_movie 2 ''Alien'' 739252]"
  by (simp add: unique_def ex_movie_def)

lemma ex_get_movies: "get_movies ex_db 2 2 = Inr ex_page"
  by (simp add: get_movies_valid select_page_def ex_order_by ex_unique ex_page_link ex_page_def
        page_link_def str_int_def str_nat.simps digit_def get_obj_count_def)
     (simp add: ex_db_def)

section \<open>Listing: the page, the totals, the links and the empty page\<close>



text \<open>
  C5. Whenever \<^verbatim>\<open>get_movies\<close> returns a result, its \<open>total_items\<close> is the number of all
  movie rows and its \<open>total_pages\<close> is \<open>total_items / per_page\<close> rounded up.
\<close>

theorem get_movies_totals:
  assumes "get_movies db page per_page = Inr r"
  shows "total_items r = int (length (movies db)) \<and>
         total_pages r = \<lceil>real_of_int (total_items r) / real_of_int per_page\<rceil>"
  using get_movies_Inr_fields(4,5)[OF assms] get_movies_Inr_pos(1)[OF assms]
  by (simp add: ceil_div)

theorem get_movies_totals_witness:
  "get_movies ex_db 2 2 = Inr ex_page \<and>
   total_items ex_page = 5 \<and> total_pages ex_page = 3 \<and>
   total_pages ex_page = \<lceil>real_of_int (total_items ex_page) / real_of_int 2\<rceil>"
proof -
  have "total_items ex_page = 5" "total_pages ex_page = 3"
    by (simp_all add: ex_page_def)
  then show ?thesis
    using get_movies_totals[OF ex_get_movies] ex_get_movies by simp
qed

text \<open>
  C6. In every result of \<^verbatim>\<open>get_movies\<close>, \<open>next_page\<close> is present exactly when
  \<open>page < total_pages\<close> and \<open>prev_page\<close> is present exactly when \<open>page > 1\<close>.
\<close>

theorem get_movies_links:
  assumes "get_movies db page per_page = Inr r"
  shows "(next_page r \<noteq> None \<longleftrightarrow> page < total_pages r) \<and> (prev_page r \<noteq> None \<longleftrightarrow> 1 < page)"
  using get_movies_Inr_fields(2,3)[OF assms] by simp

theorem get_movies_links_witness:
  "get_movies ex_db 2 2 = Inr ex_page \<and>
   next_page ex_page \<noteq> None \<and> (2::int) < total_pages ex_page \<and>
   prev_page ex_page \<noteq> None \<and> (1::int) < 2"
  using get_movies_links[OF ex_get_movies] ex_get_movies by (simp add: ex_page_def)

text \<open>
  C7. For \<open>page \<ge> 1\<close> and \<open>per_page\<close> in \<open>[1, 20]\<close>, \<^verbatim>\<open>get_movies\<close> raises the 404
  "No movies found." exactly when the fetched page is empty, that is when the offset
  reaches the number of movies, in particular when \<open>page\<close> exceeds the page count;
  otherwise it returns a result whose list of movies is not empty.
\<close>

theorem get_movies_not_found:
  assumes "1 \<le> page" and "1 \<le> per_page" and "per_page \<le> 20"
  shows "(get_movies db page per_page = Inl (HTTPException 404 ''No movies found.'') \<longleftrightarrow>
            select_page (movies db) (nat ((page - 1) * per_page)) (nat per_page) = []) \<and>
         (get_movies db page per_page = Inl (HTTPException 404 ''No movies found.'') \<longleftrightarrow>
            int (length (movies db)) \<le> (page - 1) * per_page) \<and>
         (\<lceil>real (length (movies db)) / real_of_int per_page\<rceil> < page \<longrightarrow>
            get_movies db page per_page = Inl (HTTPException 404 ''No movies found.'')) \<and>
         (get_movies db page per_page \<noteq> Inl (HTTPException 404 ''No movies found.'') \<longrightarrow>
            (\<exists>r. get_movies db page per_page = Inr r \<and> l_movies r \<noteq> [])) \<and>
         status_code_of (HTTPException 404 ''No movies found.'') = 404"
proof -
  let ?nf = "Inl (HTTPException 404 ''No movies found.'') :: error + MovieList"
  let ?page = "select_page (movies db) (nat ((page - 1) * per_page)) (nat per_page)"
  have gm: "get_movies db page per_page = ?nf \<longleftrightarrow> ?page = []"
    by (simp add: get_movies_valid[OF assms(1,2)])
  have off: "0 \<le> (page - 1) * per_page"
    using assms by simp
  have empty: "?page = [] \<longleftrightarrow> int (length (movies db)) \<le> (page - 1) * per_page"
    using assms(2) off by (simp add: select_page_Nil_iff) linarith
  have beyond: "int (length (movies db)) \<le> (page - 1) * per_page"
    if "\<lceil>real (length (movies db)) / real_of_int per_page\<rceil> < page"
  proof -
    have "\<lceil>real (length (movies db)) / real_of_int per_page\<rceil> \<le> page - 1"
      using that by simp
    then have "real (length (movies db)) / real_of_int per_page \<le> real_of_int (page - 1)"
      by (simp only: ceiling_le_iff)
    then have "real (length (movies db)) \<le> real_of_int (page - 1) * real_of_int per_page"
      using assms(2) by (simp add: pos_divide_le_eq)
    then have "real_of_int (int (length (movies db))) \<le> real_of_int ((page - 1) * per_page)"
      by simp
    then show ?thesis
      by (simp only: of_int_le_iff)
  qed
  have succ: "\<exists>r. get_movies db page per_page = Inr r \<and> l_movies r \<noteq> []"
    if "get_movies db page per_page \<noteq> ?nf"
    using that by (simp add: get_movies_valid[OF assms(1,2)] unique_Nil_iff split: if_splits)
  show ?thesis
    using gm empty beyond succ by simp
qed

theorem get_movies_not_found_witness:
  "get_movies ex_db 4 2 = Inl (HTTPException 404 ''No movies found.'') \<and>
   int (length (movies ex_db)) \<le> (4 - 1) * 2 \<and>
   \<lceil>real (length (movies ex_db)) / real_of_int 2\<rceil> < 4 \<and>
   (\<exists>r. get_movies ex_db 3 2 = Inr r \<and> l_movies r \<noteq> [])"
proof -
  have len: "length (movies ex_db) = 5"
    by (simp add: ex_db_def)
  have a: "get_movies ex_db 4 2 = Inl (HTTPException 404 ''No movies found.'')"
    using get_movies_not_found[of 4 2 ex_db] len by simp
  have b: "\<exists>r. get_movies ex_db 3 2 = Inr r \<and> l_movies r \<noteq> []"
    using get_movies_not_found[of 3 2 ex_db] len by auto
  have c: "\<lceil>real (length (movies ex_db)) / real_of_int 2\<rceil> < 4"
    using len by (simp add: ceiling_less_iff)
  show ?thesis
    using a b c len by simp
qed

section \<open>Validation of the release date\<close>

text \<open>
  C8. While the clock is at least 365 days before \<^verbatim>\<open>date.max\<close>, the validation of a
  release date fails exactly when the date is after today + 365 days, with the
  \<open>ValueError\<close> that is reported as status 422; the date exactly 365 days ahead is
  accepted.
\<close>

theorem date_validation_limit:
  assumes "today + 365 \<le> MAXORDINAL"
  shows "(isl (date_validation today (Some d)) \<longleftrightarrow> today + 365 < d) \<and>
         (date_validation today (Some d) =
            (if today + 365 < d
             then Inl (ValueError ''Date cannot be more than one year in the future'')
             else Inr (Some d))) \<and>
         date_validation today (Some (today + 365)) = Inr (Some (today + 365)) \<and>
         status_code_of (ValueError ''Date cannot be more than one year in the future'') = 422"
  using assms by (simp add: date_validation_def Let_def)

theorem date_validation_limit_witness:
  "739252 + 365 \<le> MAXORDINAL \<and>
   date_validation 739252 (Some 739617) = Inr (Some 739617) \<and>
   date_validation 739252 (Some 739618) =
     Inl (ValueError ''Date cannot be more than one year in the future'') \<and>
   isoformat 739252 = ''2025-01-01'' \<and> isoformat 739617 = ''2026-01-01'' \<and>
   isoformat 739618 = ''2026-01-02''"
proof -
  have h: "739252 + 365 \<le> MAXORDINAL"
    by (simp add: MAXORDINAL_def)
  have iso: "isoformat 739252 = ''2025-01-01''" "isoformat 739617 = ''2026-01-01''"
    "isoformat 739618 = ''2026-01-02''"
    by (simp_all add: isoformat_def ord2ymd_def Let_def DAYS_BEFORE_MONTH_def DAYS_IN_MONTH_def
        zero_pad_def str_nat.simps digit_def)
  show ?thesis
    using h iso date_validation_limit[OF h, of 739617] date_validation_limit[OF h, of 739618]
    by simp
qed

section \<open>Rows selected by a key\<close>

lemma filter_key_empty: "k \<notin> f ` set xs \<Longrightarrow> filter (\<lambda>y. f y = k) xs = []"
  by (induction xs) auto

lemma filter_key_keep: "k \<notin> f ` set xs \<Longrightarrow> filter (\<lambda>y. f y \<noteq> k) xs = xs"
  by (induction xs) auto

lemma filter_key_single:
  "distinct (map f xs) \<Longrightarrow> x \<in> set xs \<Longrightarrow> filter (\<lambda>y. f y = f x) xs = [x]"
proof (induction xs)
  case Nil then show ?case by simp
next
  case (Cons a xs)
  show ?case
  proof (cases "a = x")
    case True
    then have "f x \<notin> f ` set xs" using Cons.prems by simp
    then show ?thesis using True by (simp add: filter_key_empty)
  next
    case False
    then have "x \<in> set xs" using Cons.prems by simp
    moreover have "f a \<noteq> f x" using Cons.prems \<open>x \<in> set xs\<close> by auto
    ultimately show ?thesis using Cons by simp
  qed
qed

lemma mset_remove_key:
  "distinct (map f xs) \<Longrightarrow> x \<in> set xs \<Longrightarrow>
     mset xs = add_mset x (mset (filter (\<lambda>y. f y \<noteq> f x) xs))"
proof (induction xs)
  case Nil then show ?case by simp
next
  case (Cons a xs)
  show ?case
  proof (cases "a = x")
    case True
    then have "f x \<notin> f ` set xs" using Cons.prems by simp
    then have "filter (\<lambda>y. f y \<noteq> f x) xs = xs"
      by (simp add: filter_key_keep)
    then show ?thesis using True by simp
  next
    case False
    then have "x \<in> set xs" using Cons.prems by simp
    moreover have "f a \<noteq> f x" using Cons.prems \<open>x \<in> set xs\<close> by auto
    ultimately show ?thesis using Cons by simp
  qed
qed

lemma scalar_one_Some: "scalar_one_or_none xs = Inr (Some x) \<longleftrightarrow> xs = [x]"
  by (cases xs rule: scalar_one_or_none.cases) simp_all

lemma selected_by_id:
  assumes "scalar_one_or_none (filter (\<lambda>m. m_id m = i) ms) = Inr (Some x)"
  shows "m_id x = i" and "x \<in> set ms"
proof -
  have "x \<in> set (filter (\<lambda>m. m_id m = i) ms)"
    using assms by (simp add: scalar_one_Some)
  then show "m_id x = i" and "x \<in> set ms" by simp_all
qed

lemma filter_unique_key:
  assumes "distinct (map f (filter Q xs))" and "\<And>x. P x \<Longrightarrow> Q x \<and> f x = k"
  shows "filter P xs = [] \<or> (\<exists>x. filter P xs = [x])"
  using assms(1)
proof (induction xs)
  case Nil then show ?case by simp
next
  case (Cons a xs)
  show ?case
  proof (cases "P a")
    case True
    then have qa: "Q a" "f a = k" using assms(2) by auto
    then have "k \<notin> f ` set (filter Q xs)" using Cons.prems by auto
    then have "filter P xs = []"
      using assms(2) by (auto simp: filter_empty_conv)
    then show ?thesis using True by simp
  next
    case False
    moreover have "distinct (map f (filter Q xs))"
      using Cons.prems by (simp split: if_splits)
    ultimately show ?thesis using Cons.IH by simp
  qed
qed

lemma unique_validation_conflict:
  assumes "name_date_unique (movies db)"
    and "m \<in> set (movies db)" and "m_name m = Some (c_name d)" and "m_date m = Some (c_date d)"
  shows "name_data_unique_validaton db d =
           Inl (HTTPException 409 (conflict_detail (c_name d) (c_date d)))"
proof -
  let ?P = "\<lambda>m. m_name m = Some (c_name d) \<and> m_date m = Some (c_date d)"
  have "filter ?P (movies db) = [] \<or> (\<exists>x. filter ?P (movies db) = [x])"
    using assms(1) unfolding name_date_unique_def
    by (rule filter_unique_key) auto
  moreover have "filter ?P (movies db) \<noteq> []"
    using assms(2-4) by (auto simp: filter_empty_conv)
  ultimately obtain x where "filter ?P (movies db) = [x]"
    by blast
  then show ?thesis
    by (simp add: name_data_unique_validaton_def)
qed

lemma ex_unique_pairs: "name_date_unique (movies ex_db)"
  by (simp add: name_date_unique_def ex_db_def ex_movie_def)

lemma ex_isoformat: "isoformat 739252 = ''2025-01-01''"
  by (simp add: isoformat_def ord2ymd_def Let_def DAYS_BEFORE_MONTH_def DAYS_IN_MONTH_def
        zero_pad_def str_nat.simps digit_def)

lemma ex_present: "ex_movie 3 ''Heat'' 739253 \<in> set (movies ex_db)"
  by (simp add: ex_db_def)

lemma ex_id3: "m_id (ex_movie 3 ''Heat'' 739253) = 3"
  by (simp add: ex_movie_def)

section \<open>Deleting\<close>

text \<open>
  C9. With distinct movie ids: deleting an id no movie has raises the 404 and leaves the
  database as it was; deleting the id of a movie answers 204 with an empty body,
  removes exactly that movie row, leaves the genre, actor, language and country tables
  as they were, and \<^verbatim>\<open>get_movie_with_id\<close> on that id then raises the 404.
\<close>

theorem delete_movie_spec:
  assumes "distinct (map m_id (movies db))"
  shows "(movie_id \<notin> m_id ` set (movies db) \<longrightarrow>
            delete_movie db movie_id =
              (Inl (HTTPException 404 ''Movie with the given ID was not found.''), db)) \<and>
         (\<forall>m \<in> set (movies db). m_id m = movie_id \<longrightarrow>
            (\<exists>db'. delete_movie db movie_id = (Inr \<lparr>status_code = 204, body = []\<rparr>, db') \<and>
               movies db' = filter (\<lambda>x. m_id x \<noteq> movie_id) (movies db) \<and>
               mset (movies db) = add_mset m (mset (movies db')) \<and>
               genres db' = genres db \<and> actors db' = actors db \<and>
               languages db' = languages db \<and> countries db' = countries db \<and>
               get_movie_with_id movie_id db' =
                 Inl (HTTPException 404 ''Movie with the given ID was not found.'')))"
proof (intro conjI impI ballI)
  assume "movie_id \<notin> m_id ` set (movies db)"
  then show "delete_movie db movie_id =
      (Inl (HTTPException 404 ''Movie with the given ID was not found.''), db)"
    by (simp add: delete_movie_def filter_key_empty not_found_def)
next
  fix m assume m: "m \<in> set (movies db)" "m_id m = movie_id"
  let ?db' = "db\<lparr>movies := filter (\<lambda>x. m_id x \<noteq> movie_id) (movies db)\<rparr>"
  have sel: "filter (\<lambda>x. m_id x = movie_id) (movies db) = [m]"
    using filter_key_single[OF assms m(1)] m(2) by simp
  have del: "delete_movie db movie_id = (Inr \<lparr>status_code = 204, body = []\<rparr>, ?db')"
    using m(2) by (simp add: delete_movie_def sel)
  have gone: "filter (\<lambda>x. m_id x = movie_id) (movies ?db') = []"
    by (simp add: filter_empty_conv)
  have get: "get_movie_with_id movie_id ?db' =
      Inl (HTTPException 404 ''Movie with the given ID was not found.'')"
    unfolding get_movie_with_id_def gone by (simp add: unique_def not_found_def)
  have ms: "mset (movies db) = add_mset m (mset (movies ?db'))"
    using mset_remove_key[OF assms m(1)] m(2) by simp
  show "\<exists>db'. delete_movie db movie_id = (Inr \<lparr>status_code = 204, body = []\<rparr>, db') \<and>
               movies db' = filter (\<lambda>x. m_id x \<noteq> movie_id) (movies db) \<and>
               mset (movies db) = add_mset m (mset (movies db')) \<and>
               genres db' = genres db \<and> actors db' = actors db \<and>
               languages db' = languages db \<and> countries db' = countries db \<and>
               get_movie_with_id movie_id db' =
                 Inl (HTTPException 404 ''Movie with the given ID was not found.'')"
    using del get ms by (intro exI[of _ ?db']) simp
qed

theorem delete_movie_spec_witness:
  "distinct (map m_id (movies ex_db)) \<and>
   delete_movie ex_db 9 = (Inl (HTTPException 404 ''Movie with the given ID was not found.''), ex_db) \<and>
   fst (delete_movie ex_db 3) = Inr \<lparr>status_code = 204, body = []\<rparr> \<and>
   map m_id (movies (snd (delete_movie ex_db 3))) = [1, 2, 4, 5] \<and>
   genres (snd (delete_movie ex_db 3)) = genres ex_db \<and>
   countries (snd (delete_movie ex_db 3)) = countries ex_db \<and>
   get_movie_with_id 3 (snd (delete_movie ex_db 3)) =
     Inl (HTTPException 404 ''Movie with the given ID was not found.'')"
proof -
  have absent: "9 \<notin> m_id ` set (movies ex_db)"
    by (simp add: ex_db_def ex_movie_def)
  have present: "ex_movie 3 ''Heat'' 739253 \<in> set (movies ex_db)"
    by (simp add: ex_db_def)
  have id3: "m_id (ex_movie 3 ''Heat'' 739253) = 3"
    by (simp add: ex_movie_def)
  have ids: "map m_id (filter (\<lambda>x. m_id x \<noteq> 3) (movies ex_db)) = [1, 2, 4, 5]"
    by (simp add: ex_db_def ex_movie_def)
  from delete_movie_spec[OF ex_pk, of 9] absent
  have a: "delete_movie ex_db 9 =
      (Inl (HTTPException 404 ''Movie with the given ID was not found.''), ex_db)"
    by simp
  from delete_movie_spec[OF ex_pk, of 3] present id3
  obtain db' where b: "delete_movie ex_db 3 = (Inr \<lparr>status_code = 204, body = []\<rparr>, db')"
      "movies db' = filter (\<lambda>x. m_id x \<noteq> 3) (movies ex_db)"
      "genres db' = genres ex_db" "countries db' = countries ex_db"
      "get_movie_with_id 3 db' = Inl (HTTPException 404 ''Movie with the given ID was not found.'')"
    by blast
  show ?thesis
    using ex_pk a b ids by simp
qed

section \<open>The conflict on creation\<close>

lemma validation_conflict_one:
  assumes "length (filter (\<lambda>x. m_name x = Some (c_name d) \<and> m_date x = Some (c_date d))
                     (movies db)) = 1"
  shows "name_data_unique_validaton db d =
           Inl (HTTPException 409 (conflict_detail (c_name d) (c_date d)))"
  using assms unfolding name_data_unique_validaton_def
  by (cases "filter (\<lambda>x. m_name x = Some (c_name d) \<and> m_date x = Some (c_date d)) (movies db)"
        rule: scalar_one_or_none.cases) simp_all

lemma validation_fails:
  assumes "m \<in> set (movies db)" and "m_name m = Some (c_name d)" and "m_date m = Some (c_date d)"
  shows "\<exists>e. name_data_unique_validaton db d = Inl e"
proof -
  have "filter (\<lambda>x. m_name x = Some (c_name d) \<and> m_date x = Some (c_date d)) (movies db) \<noteq> []"
    using assms by (auto simp: filter_empty_conv)
  then show ?thesis
    unfolding name_data_unique_validaton_def
    by (cases "filter (\<lambda>x. m_name x = Some (c_name d) \<and> m_date x = Some (c_date d)) (movies db)"
          rule: scalar_one_or_none.cases) simp_all
qed

lemma ex_duplicate_reached:
  "foldl (after_call any_table) ex_empty
     [CreateFilm ex_create, CreateFilm ex_create2, UpdateMovie 2 ex_rename] = ex_dup_db"
proof -
  have one: "after_call any_table ex_empty (CreateFilm ex_create) = ex_db1"
    by (simp add: create_film_def name_data_unique_validaton_def get_or_create_def next_id_def
          new_named_def new_country_def ex_empty_def ex_create_def ex_db1_def ex_movie_def
          ex_country_def commit_def any_table_def Let_def)
  have two: "after_call any_table ex_db1 (CreateFilm ex_create2) =
      ex_db1\<lparr>movies := [ex_movie 1 ''Dune'' 739252, ex_alien],
             genres := [\<lparr>n_id = 1, n_name = ''Sci-Fi''\<rparr>, \<lparr>n_id = 2, n_name = ''Horror''\<rparr>]\<rparr>"
    by (simp add: create_film_def name_data_unique_validaton_def get_or_create_def next_id_def
          new_named_def new_country_def ex_create2_def ex_create_def ex_db1_def
          ex_alien_def ex_movie_def ex_country_def commit_def any_table_def Let_def)
  have three: "after_call any_table
      (ex_db1\<lparr>movies := [ex_movie 1 ''Dune'' 739252, ex_alien],
              genres := [\<lparr>n_id = 1, n_name = ''Sci-Fi''\<rparr>, \<lparr>n_id = 2, n_name = ''Horror''\<rparr>]\<rparr>)
      (UpdateMovie 2 ex_rename) = ex_dup_db"
    by (simp add: update_movie_def commit_def any_table_def model_dump_exclude_unset_def entry_def
          ex_rename_def ex_db1_def ex_dup_db_def ex_alien_def ex_movie_def Let_def)
  show ?thesis
    by (simp only: foldl.simps one two three)
qed

lemma ex_duplicate_create:
  "create_film any_table ex_dup_db ex_create = (Inl MultipleResultsFound, ex_dup_db)"
  by (simp add: create_film_def name_data_unique_validaton_def ex_dup_db_def ex_create_def
        ex_alien_def ex_movie_def)

text \<open>
  C1. Creating a movie whose name and date are those of an existing movie fails and
  leaves the database unchanged, in every database. When exactly one movie has that
  name and date, as in every database whose (name, date) pairs are unique, the failure
  is the 409 whose detail names that name and date.
\<close>

theorem create_film_conflict:
  assumes "m \<in> set (movies db)" and "m_name m = Some (c_name d)" and "m_date m = Some (c_date d)"
  shows "(\<exists>e. create_film admits db d = (Inl e, db)) \<and>
         (length (filter (\<lambda>x. m_name x = Some (c_name d) \<and> m_date x = Some (c_date d))
                    (movies db)) = 1 \<or> name_date_unique (movies db) \<longrightarrow>
          create_film admits db d =
            (Inl (HTTPException 409
                   (''A movie with the name '' @ [CHR 0x27] @ c_name d @ [CHR 0x27] @
                    '' and release date '' @ [CHR 0x27] @ isoformat (c_date d) @ [CHR 0x27] @
                    '' already exists.'')), db)) \<and>
         status_code_of (HTTPException 409
                  (''A movie with the name '' @ [CHR 0x27] @ c_name d @ [CHR 0x27] @
                   '' and release date '' @ [CHR 0x27] @ isoformat (c_date d) @ [CHR 0x27] @
                   '' already exists.'')) = 409"
proof -
  obtain e where "name_data_unique_validaton db d = Inl e"
    using validation_fails[OF assms] by blast
  then have fails: "\<exists>e. create_film admits db d = (Inl e, db)"
    by (simp add: create_film_def)
  have conflict: "create_film admits db d =
      (Inl (HTTPException 409 (conflict_detail (c_name d) (c_date d))), db)"
    if "length (filter (\<lambda>x. m_name x = Some (c_name d) \<and> m_date x = Some (c_date d))
                  (movies db)) = 1 \<or> name_date_unique (movies db)"
  proof -
    have "name_data_unique_validaton db d =
        Inl (HTTPException 409 (conflict_detail (c_name d) (c_date d)))"
      using that validation_conflict_one[of d db] unique_validation_conflict[OF _ assms]
      by blast
    then show ?thesis
      by (simp add: create_film_def)
  qed
  show ?thesis
    using fails conflict by (simp add: conflict_detail_def)
qed

theorem create_film_conflict_witness:
  "ex_movie 1 ''Dune'' 739252 \<in> set (movies ex_db) \<and>
   m_name (ex_movie 1 ''Dune'' 739252) = Some (c_name ex_create) \<and>
   m_date (ex_movie 1 ''Dune'' 739252) = Some (c_date ex_create) \<and>
   length (filter (\<lambda>x. m_name x = Some (c_name ex_create) \<and> m_date x = Some (c_date ex_create))
             (movies ex_db)) = 1 \<and>
   name_date_unique (movies ex_db) \<and>
   create_film any_table ex_db ex_create =
     (Inl (HTTPException 409
            (''A movie with the name '' @ [CHR 0x27] @ ''Dune'' @ [CHR 0x27] @
             '' and release date '' @ [CHR 0x27] @ ''2025-01-01'' @ [CHR 0x27] @
             '' already exists.'')), ex_db)"
proof -
  have a: "ex_movie 1 ''Dune'' 739252 \<in> set (movies ex_db)"
    by (simp add: ex_db_def)
  have b: "m_name (ex_movie 1 ''Dune'' 739252) = Some (c_name ex_create)"
    "m_date (ex_movie 1 ''Dune'' 739252) = Some (c_date ex_create)"
    by (simp_all add: ex_movie_def ex_create_def)
  have c: "c_name ex_create = ''Dune''" "c_date ex_create = 739252"
    by (simp_all add: ex_create_def)
  have one: "length (filter (\<lambda>x. m_name x = Some (c_name ex_create) \<and>
      m_date x = Some (c_date ex_create)) (movies ex_db)) = 1"
    by (simp add: ex_db_def ex_movie_def ex_create_def)
  show ?thesis
    using create_film_conflict[OF a b, of any_table] ex_unique_pairs a b one
    by (simp add: c ex_isoformat)
qed

text \<open>
  The 409 is not the answer in every database. Two creations and an update that renames
  the second movie, with no constraint on the movie table, leave two movies with the
  same name and date; creating a third one with that name and date then raises
  \<open>MultipleResultsFound\<close>, a server error, from the check itself.
\<close>

theorem create_film_conflict_counterexample:
  "foldl (after_call any_table) ex_empty
     [CreateFilm ex_create, CreateFilm ex_create2, UpdateMovie 2 ex_rename] = ex_dup_db \<and>
   ex_movie 1 ''Dune'' 739252 \<in> set (movies ex_dup_db) \<and>
   m_name (ex_movie 1 ''Dune'' 739252) = Some (c_name ex_create) \<and>
   m_date (ex_movie 1 ''Dune'' 739252) = Some (c_date ex_create) \<and>
   create_film any_table ex_dup_db ex_create = (Inl MultipleResultsFound, ex_dup_db) \<and>
   status_code_of MultipleResultsFound = 500 \<and>
   fst (create_film any_table ex_dup_db ex_create) \<noteq>
     Inl (HTTPException 409
            (''A movie with the name '' @ [CHR 0x27] @ c_name ex_create @ [CHR 0x27] @
             '' and release date '' @ [CHR 0x27] @ isoformat (c_date ex_create) @ [CHR 0x27] @
             '' already exists.''))"
  using ex_duplicate_reached ex_duplicate_create
  by (simp add: ex_dup_db_def ex_movie_def ex_create_def)

section \<open>Updating\<close>

lemma foldl_setattr_entry:
  "foldl setattr m (entry F v) = (case v of None \<Rightarrow> m | Some x \<Rightarrow> setattr m (F x))"
  by (cases v) (simp_all add: entry_def)

lemma setattr_keeps:
  "m_id (setattr m it) = m_id m" "m_country (setattr m it) = m_country m"
  "m_genres (setattr m it) = m_genres m" "m_actors (setattr m it) = m_actors m"
  "m_languages (setattr m it) = m_languages m"
  by (cases it; simp)+

lemma foldl_setattr_keeps:
  "m_id (foldl setattr m its) = m_id m" "m_country (foldl setattr m its) = m_country m"
  "m_genres (foldl setattr m its) = m_genres m" "m_actors (foldl setattr m its) = m_actors m"
  "m_languages (foldl setattr m its) = m_languages m"
  by (induction its arbitrary: m; simp add: setattr_keeps)+

lemma dump_name: "m_name (foldl setattr m (model_dump_exclude_unset u)) =
    (case u_name u of None \<Rightarrow> m_name m | Some v \<Rightarrow> v)"
  by (simp add: model_dump_exclude_unset_def foldl_setattr_entry split: option.splits)

lemma dump_date: "m_date (foldl setattr m (model_dump_exclude_unset u)) =
    (case u_date u of None \<Rightarrow> m_date m | Some v \<Rightarrow> v)"
  by (simp add: model_dump_exclude_unset_def foldl_setattr_entry split: option.splits)

lemma dump_score: "m_score (foldl setattr m (model_dump_exclude_unset u)) =
    (case u_score u of None \<Rightarrow> m_score m | Some v \<Rightarrow> v)"
  by (simp add: model_dump_exclude_unset_def foldl_setattr_entry split: option.splits)

lemma dump_overview: "m_overview (foldl setattr m (model_dump_exclude_unset u)) =
    (case u_overview u of None \<Rightarrow> m_overview m | Some v \<Rightarrow> v)"
  by (simp add: model_dump_exclude_unset_def foldl_setattr_entry split: option.splits)

lemma dump_status: "m_status (foldl setattr m (model_dump_exclude_unset u)) =
    (case u_status u of None \<Rightarrow> m_status m | Some v \<Rightarrow> v)"
  by (simp add: model_dump_exclude_unset_def foldl_setattr_entry split: option.splits)

lemma dump_budget: "m_budget (foldl setattr m (model_dump_exclude_unset u)) =
    (case u_budget u of None \<Rightarrow> m_budget m | Some v \<Rightarrow> v)"
  by (simp add: model_dump_exclude_unset_def foldl_setattr_entry split: option.splits)

lemma dump_revenue: "m_revenue (foldl setattr m (model_dump_exclude_unset u)) =
    (case u_revenue u of None \<Rightarrow> m_revenue m | Some v \<Rightarrow> v)"
  by (simp add: model_dump_exclude_unset_def foldl_setattr_entry split: option.splits)


lemma update_movie_result:
  assumes "distinct (map m_id (movies db))" and "m \<in> set (movies db)" and "m_id m = movie_id"
  shows "update_movie admits db movie_id u =
           (if admits (map (\<lambda>x. if m_id x = movie_id
                                  then foldl setattr m (model_dump_exclude_unset u) else x)
                         (movies db))
            then (Inr (foldl setattr m (model_dump_exclude_unset u)),
                  db\<lparr>movies := map (\<lambda>x. if m_id x = movie_id
                                          then foldl setattr m (model_dump_exclude_unset u) else x)
                                    (movies db)\<rparr>)
            else (Inl IntegrityError, db))"
proof -
  have "filter (\<lambda>x. m_id x = movie_id) (movies db) = [m]"
    using filter_key_single[OF assms(1,2)] assms(3) by simp
  then show ?thesis
    using assms(3) by (simp add: update_movie_def commit_def Let_def)
qed


text \<open>
  C2. With distinct movie ids, updating an existing movie sets every field the payload
  carries to the payload's value and leaves every field the payload omits at its prior
  value; the id, the country, the genres, the actors and the languages of the movie, and
  the tables of the related rows, are unchanged. This is the row the call returns and
  stores when the movie table admits it; otherwise the commit raises and the database
  is as before.
\<close>

theorem update_movie_partial:
  assumes "distinct (map m_id (movies db))" and "m \<in> set (movies db)" and "m_id m = movie_id"
  shows "\<exists>m'.
           m_name m' = (case u_name u of None \<Rightarrow> m_name m | Some v \<Rightarrow> v) \<and>
           m_date m' = (case u_date u of None \<Rightarrow> m_date m | Some v \<Rightarrow> v) \<and>
           m_score m' = (case u_score u of None \<Rightarrow> m_score m | Some v \<Rightarrow> v) \<and>
           m_overview m' = (case u_overview u of None \<Rightarrow> m_overview m | Some v \<Rightarrow> v) \<and>
           m_status m' = (case u_status u of None \<Rightarrow> m_status m | Some v \<Rightarrow> v) \<and>
           m_budget m' = (case u_budget u of None \<Rightarrow> m_budget m | Some v \<Rightarrow> v) \<and>
           m_revenue m' = (case u_revenue u of None \<Rightarrow> m_revenue m | Some v \<Rightarrow> v) \<and>
           m_id m' = m_id m \<and> m_country m' = m_country m \<and> m_genres m' = m_genres m \<and>
           m_actors m' = m_actors m \<and> m_languages m' = m_languages m \<and>
           update_movie admits db movie_id u =
             (if admits (map (\<lambda>x. if m_id x = movie_id then m' else x) (movies db))
              then (Inr m',
                    \<lparr>movies = map (\<lambda>x. if m_id x = movie_id then m' else x) (movies db),
                     genres = genres db, actors = actors db, languages = languages db,
                     countries = countries db\<rparr>)
              else (Inl IntegrityError, db))"
  unfolding update_movie_result[OF assms]
  by (intro exI[of _ "foldl setattr m (model_dump_exclude_unset u)"])
     (simp add: dump_name dump_date dump_score dump_overview dump_status dump_budget
        dump_revenue foldl_setattr_keeps)

theorem update_movie_partial_witness:
  "distinct (map m_id (movies ex_db)) \<and>
   ex_movie 3 ''Heat'' 739253 \<in> set (movies ex_db) \<and>
   (\<exists>m' db'. update_movie any_table ex_db 3 ex_patch = (Inr m', db') \<and>
      m_name m' = Some ''Heat 2'' \<and> m_score m' = Some 90 \<and>
      m_date m' = Some 739253 \<and> m_overview m' = Some ''...'' \<and>
      m_status m' = Some ''Released'' \<and> m_budget m' = Some 100 \<and> m_revenue m' = Some 400 \<and>
      m_id m' = 3 \<and> m_country m' = ex_country \<and>
      m_genres m' = [\<lparr>n_id = 1, n_name = ''Sci-Fi''\<rparr>] \<and>
      genres db' = genres ex_db \<and> countries db' = countries ex_db)"
  using update_movie_partial[OF ex_pk ex_present ex_id3, of ex_patch any_table] ex_pk ex_present
  by (auto simp: ex_patch_def ex_movie_def any_table_def)



section \<open>Get-or-create\<close>

lemma le_fold_max: "x \<in> set ids \<Longrightarrow> x \<le> fold max ids (a::int)"
proof (induction ids arbitrary: a)
  case Nil then show ?case by simp
next
  case (Cons i ids)
  have mono: "b \<le> fold max ids b" for b :: int
    by (induction ids arbitrary: b) (auto intro: order_trans[OF max.cobounded2])
  show ?case
  proof (cases "x = i")
    case True
    have "i \<le> max i a" by simp
    also have "\<dots> \<le> fold max ids (max i a)" by (rule mono)
    finally show ?thesis using True by simp
  next
    case False
    then show ?thesis using Cons by simp
  qed
qed

lemma next_id_fresh: "next_id ids \<notin> set ids"
proof
  assume "next_id ids \<in> set ids"
  then have "next_id ids \<le> fold max ids 0" by (rule le_fold_max)
  then show False by (simp add: next_id_def)
qed

lemma filter_all_key:
  assumes "distinct (map key tbl)"
  shows "filter (\<lambda>r. key r = k) tbl = [] \<or> (\<exists>x. filter (\<lambda>r. key r = k) tbl = [x])"
proof -
  have "distinct (map key (filter (\<lambda>r. True) tbl))"
    using assms by simp
  then show ?thesis
    by (rule filter_unique_key) simp
qed

lemma get_or_create_ok:
  assumes "distinct (map key tbl)" and "\<And>i k. key (new i k) = k"
  shows "\<exists>r ys. get_or_create rid key new tbl k = Inr (r, tbl @ ys) \<and>
           r \<in> set (tbl @ ys) \<and> key r = k \<and> distinct (map key (tbl @ ys))"
proof -
  consider "filter (\<lambda>r. key r = k) tbl = []" | x where "filter (\<lambda>r. key r = k) tbl = [x]"
    using filter_all_key[OF assms(1)] by blast
  then show ?thesis
  proof cases
    case 1
    then have "k \<notin> key ` set tbl"
      by (auto simp: filter_empty_conv)
    then have "distinct (map key (tbl @ [new (next_id (map rid tbl)) k]))"
      using assms by simp
    then show ?thesis
      using 1 assms(2)
      by (intro exI[of _ "new (next_id (map rid tbl)) k"] exI[of _ "[new (next_id (map rid tbl)) k]"])
         (simp add: get_or_create_def Let_def)
  next
    case 2
    then have "x \<in> set (filter (\<lambda>r. key r = k) tbl)" by simp
    then have "x \<in> set tbl" "key x = k" by simp_all
    then show ?thesis
      using 2 assms(1)
      by (intro exI[of _ x] exI[of _ "[]"]) (simp add: get_or_create_def)
  qed
qed

lemma get_or_create_each_ok:
  assumes "distinct (map key tbl)" and "\<And>i k. key (new i k) = k"
  shows "\<exists>rs ys. get_or_create_each rid key new tbl ks = Inr (rs, tbl @ ys) \<and>
           map key rs = ks \<and> set rs \<subseteq> set (tbl @ ys) \<and> distinct (map key (tbl @ ys))"
  using assms(1)
proof (induction ks arbitrary: tbl)
  case Nil
  then show ?case by (intro exI[of _ "[]"]) simp
next
  case (Cons k ks)
  obtain r ys where r: "get_or_create rid key new tbl k = Inr (r, tbl @ ys)"
      "r \<in> set (tbl @ ys)" "key r = k" "distinct (map key (tbl @ ys))"
    using get_or_create_ok[of key tbl new rid k] Cons.prems assms(2) by blast
  obtain rs zs where rs: "get_or_create_each rid key new (tbl @ ys) ks = Inr (rs, (tbl @ ys) @ zs)"
      "map key rs = ks" "set rs \<subseteq> set ((tbl @ ys) @ zs)" "distinct (map key ((tbl @ ys) @ zs))"
    using Cons.IH[OF r(4)] by blast
  show ?case
    using r rs
    by (intro exI[of _ "r # rs"] exI[of _ "ys @ zs"]) auto
qed

lemma key_new_named: "n_name (new_named i k) = k"
  by (simp add: new_named_def)

lemma key_new_country: "k_code (new_country i k) = k"
  by (simp add: new_country_def)

lemma first_new_movie:
  assumes "m_id m \<notin> m_id ` set ms"
  shows "first (filter (\<lambda>x. m_id x = m_id m) (ms @ [m])) = Some m"
  using assms by (simp add: filter_key_empty)

lemma create_film_success:
  assumes nk: "natural_keys_unique db" and ok: "create_film admits db d = (Inr r, db')"
  shows "\<exists>m gs as ls cs.
           r = Some m \<and> movies db' = movies db @ [m] \<and> m_id m \<notin> m_id ` set (movies db) \<and>
           genres db' = genres db @ gs \<and> actors db' = actors db @ as \<and>
           languages db' = languages db @ ls \<and> countries db' = countries db @ cs \<and>
           map n_name (m_genres m) = c_genres d \<and> set (m_genres m) \<subseteq> set (genres db') \<and>
           map n_name (m_actors m) = c_actors d \<and> set (m_actors m) \<subseteq> set (actors db') \<and>
           map n_name (m_languages m) = c_languages d \<and> set (m_languages m) \<subseteq> set (languages db') \<and>
           k_code (m_country m) = c_country d \<and> m_country m \<in> set (countries db') \<and>
           m_name m = Some (c_name d) \<and> m_date m = Some (c_date d) \<and>
           name_data_unique_validaton db d = Inr () \<and> admits (movies db') \<and>
           natural_keys_unique db'"
proof -
  obtain grs gs where g: "get_or_create_each n_id n_name new_named (genres db) (c_genres d) =
        Inr (grs, genres db @ gs)" "map n_name grs = c_genres d"
      "set grs \<subseteq> set (genres db @ gs)" "distinct (map n_name (genres db @ gs))"
    using get_or_create_each_ok[of n_name "genres db" new_named n_id "c_genres d"] nk
    by (auto simp: natural_keys_unique_def key_new_named)
  obtain ars as where a: "get_or_create_each n_id n_name new_named (actors db) (c_actors d) =
        Inr (ars, actors db @ as)" "map n_name ars = c_actors d"
      "set ars \<subseteq> set (actors db @ as)" "distinct (map n_name (actors db @ as))"
    using get_or_create_each_ok[of n_name "actors db" new_named n_id "c_actors d"] nk
    by (auto simp: natural_keys_unique_def key_new_named)
  obtain lrs ls where l: "get_or_create_each n_id n_name new_named (languages db) (c_languages d) =
        Inr (lrs, languages db @ ls)" "map n_name lrs = c_languages d"
      "set lrs \<subseteq> set (languages db @ ls)" "distinct (map n_name (languages db @ ls))"
    using get_or_create_each_ok[of n_name "languages db" new_named n_id "c_languages d"] nk
    by (auto simp: natural_keys_unique_def key_new_named)
  obtain c cs where c: "get_or_create k_id k_code new_country (countries db) (c_country d) =
        Inr (c, countries db @ cs)" "c \<in> set (countries db @ cs)" "k_code c = c_country d"
      "distinct (map k_code (countries db @ cs))"
    using get_or_create_ok[of k_code "countries db" new_country k_id "c_country d"] nk
    by (auto simp: natural_keys_unique_def key_new_country)
  let ?m = "\<lparr>m_id = next_id (map m_id (movies db)), m_name = Some (c_name d),
             m_date = Some (c_date d), m_score = Some (c_score d),
             m_overview = Some (c_overview d), m_status = Some (c_status d),
             m_budget = Some (c_budget d), m_revenue = Some (c_revenue d),
             m_country = c, m_genres = grs, m_actors = ars, m_languages = lrs\<rparr>"
  have fresh: "m_id ?m \<notin> m_id ` set (movies db)"
    using next_id_fresh[of "map m_id (movies db)"] by simp
  have val: "name_data_unique_validaton db d = Inr ()"
    using ok by (auto simp: create_film_def split: sum.splits)
  have adm: "admits (movies db @ [?m])"
    using ok unfolding create_film_def val g(1) a(1) l(1) c(1)
    by (simp add: Let_def commit_def split: if_splits)
  have res: "create_film admits db d =
      (Inr (Some ?m), \<lparr>movies = movies db @ [?m], genres = genres db @ gs,
         actors = actors db @ as, languages = languages db @ ls,
         countries = countries db @ cs\<rparr>)"
    unfolding create_film_def val g(1) a(1) l(1) c(1)
    using first_new_movie[OF fresh] adm by (simp add: Let_def commit_def)
  let ?db' = "\<lparr>movies = movies db @ [?m], genres = genres db @ gs,
         actors = actors db @ as, languages = languages db @ ls,
         countries = countries db @ cs\<rparr>"
  from ok res have r: "r = Some ?m" and db': "db' = ?db'"
    by simp_all
  have nk': "natural_keys_unique ?db'"
    using g(4) a(4) l(4) c(4) by (simp add: natural_keys_unique_def)
  have rel: "map n_name (m_genres ?m) = c_genres d" "set (m_genres ?m) \<subseteq> set (genres ?db')"
    "map n_name (m_actors ?m) = c_actors d" "set (m_actors ?m) \<subseteq> set (actors ?db')"
    "map n_name (m_languages ?m) = c_languages d" "set (m_languages ?m) \<subseteq> set (languages ?db')"
    "k_code (m_country ?m) = c_country d" "m_country ?m \<in> set (countries ?db')"
    using g(2,3) a(2,3) l(2,3) c(2,3) by simp_all
  have more: "m_name ?m = Some (c_name d)" "m_date ?m = Some (c_date d)"
    "admits (movies ?db')"
    using adm by simp_all
  have tabs: "movies ?db' = movies db @ [?m]" "genres ?db' = genres db @ gs"
    "actors ?db' = actors db @ as" "languages ?db' = languages db @ ls"
    "countries ?db' = countries db @ cs"
    by simp_all
  show ?thesis
    unfolding r db'
    by (intro exI[of _ ?m] exI[of _ gs] exI[of _ as] exI[of _ ls] exI[of _ cs] conjI refl
          nk' rel tabs fresh more val)
qed

lemma shared_key_row:
  assumes "distinct (map key tbl)" and "r1 \<in> set tbl" and "r2 \<in> set tbl"
    and "key r1 = k" and "key r2 = k"
  shows "filter (\<lambda>x. key x = k) tbl = [r1] \<and> r2 = r1"
proof -
  have sel: "filter (\<lambda>x. key x = k) tbl = [r1]"
    using filter_key_single[OF assms(1,2)] assms(4) by simp
  have "r2 \<in> set (filter (\<lambda>x. key x = k) tbl)"
    using assms(3,5) by simp
  then show ?thesis
    unfolding sel by simp
qed

lemma shared_key_rows:
  assumes "distinct (map key tbl2)"
    and "set rs1 \<subseteq> set tbl1" and "set tbl1 \<subseteq> set tbl2" and "set rs2 \<subseteq> set tbl2"
    and "k \<in> set (map key rs1)" and "k \<in> set (map key rs2)"
  shows "\<exists>r. filter (\<lambda>x. key x = k) tbl2 = [r] \<and> r \<in> set rs1 \<and> r \<in> set rs2"
proof -
  obtain r1 where r1: "r1 \<in> set rs1" "key r1 = k"
    using assms(5) by auto
  obtain r2 where r2: "r2 \<in> set rs2" "key r2 = k"
    using assms(6) by auto
  have "r1 \<in> set tbl2" "r2 \<in> set tbl2"
    using r1(1) r2(1) assms(2,3,4) by auto
  then have "filter (\<lambda>x. key x = k) tbl2 = [r1] \<and> r2 = r1"
    using assms(1) r1(2) r2(2) by (intro shared_key_row)
  then show ?thesis
    using r1(1) r2(1) by auto
qed

section \<open>What every call keeps\<close>

lemma related_grow_refl: "related_grow db db"
  by (simp add: related_grow_def)

lemma related_grow_trans: "related_grow a b \<Longrightarrow> related_grow b c \<Longrightarrow> related_grow a c"
  by (auto simp: related_grow_def)

lemma create_film_failure: "create_film admits db d = (Inl e, db') \<Longrightarrow> db' = db"
  by (auto simp: create_film_def Let_def commit_def split: sum.splits prod.splits if_splits)

lemma validation_passes:
  assumes "name_data_unique_validaton db d = Inr ()"
  shows "filter (\<lambda>m. m_name m = Some (c_name d) \<and> m_date m = Some (c_date d)) (movies db) = []"
  using assms unfolding name_data_unique_validaton_def
  by (cases "filter (\<lambda>m. m_name m = Some (c_name d) \<and> m_date m = Some (c_date d)) (movies db)"
        rule: scalar_one_or_none.cases) simp_all

lemma name_date_unique_snoc:
  assumes "name_date_unique ms"
    and "filter (\<lambda>x. m_name x = m_name m \<and> m_date x = m_date m) ms = []"
  shows "name_date_unique (ms @ [m])"
proof -
  have "(m_name m, m_date m) \<notin>
      (\<lambda>x. (m_name x, m_date x)) ` set (filter (\<lambda>x. m_name x \<noteq> None \<and> m_date x \<noteq> None) ms)"
    using assms(2) by (auto simp: filter_empty_conv)
  then show ?thesis
    using assms(1) by (simp add: name_date_unique_def)
qed

lemma create_film_keeps:
  assumes "natural_keys_unique db"
  shows "natural_keys_unique (snd (create_film admits db d))"
    and "related_grow db (snd (create_film admits db d))"
    and "distinct (map m_id (movies db)) \<Longrightarrow>
           distinct (map m_id (movies (snd (create_film admits db d))))"
    and "name_date_unique (movies db) \<Longrightarrow>
           name_date_unique (movies (snd (create_film admits db d)))"
proof -
  obtain r db' where res: "create_film admits db d = (r, db')"
    by (cases "create_film admits db d")
  have "natural_keys_unique db' \<and> related_grow db db' \<and>
        (distinct (map m_id (movies db)) \<longrightarrow> distinct (map m_id (movies db'))) \<and>
        (name_date_unique (movies db) \<longrightarrow> name_date_unique (movies db'))"
  proof (cases r)
    case (Inl e)
    then have "db' = db" using res create_film_failure by blast
    then show ?thesis using assms by (simp add: related_grow_refl)
  next
    case (Inr res')
    obtain m gs as ls cs where ok:
        "movies db' = movies db @ [m]" "m_id m \<notin> m_id ` set (movies db)"
        "genres db' = genres db @ gs" "actors db' = actors db @ as"
        "languages db' = languages db @ ls" "countries db' = countries db @ cs"
        "m_name m = Some (c_name d)" "m_date m = Some (c_date d)"
        "name_data_unique_validaton db d = Inr ()"
        "natural_keys_unique db'"
      using create_film_success[OF assms res[unfolded Inr]] by blast
    have "name_date_unique (movies db')" if "name_date_unique (movies db)"
      unfolding ok(1) using that validation_passes[OF ok(9)]
      by (intro name_date_unique_snoc) (simp_all add: ok(7,8))
    then show ?thesis
      using ok by (simp add: related_grow_def)
  qed
  then show "natural_keys_unique (snd (create_film admits db d))"
    and "related_grow db (snd (create_film admits db d))"
    and "distinct (map m_id (movies db)) \<Longrightarrow>
           distinct (map m_id (movies (snd (create_film admits db d))))"
    and "name_date_unique (movies db) \<Longrightarrow>
           name_date_unique (movies (snd (create_film admits db d)))"
    by (simp_all add: res)
qed

lemma delete_movie_keeps:
  shows "movies (snd (delete_movie db i)) = filter (\<lambda>m. m_id m \<noteq> i) (movies db) \<or>
           snd (delete_movie db i) = db"
    and "genres (snd (delete_movie db i)) = genres db"
    and "actors (snd (delete_movie db i)) = actors db"
    and "languages (snd (delete_movie db i)) = languages db"
    and "countries (snd (delete_movie db i)) = countries db"
  by (auto simp: delete_movie_def dest: selected_by_id(1) split: sum.splits option.splits)

lemma name_date_unique_filter: "name_date_unique ms \<Longrightarrow> name_date_unique (filter P ms)"
proof -
  assume "name_date_unique ms"
  then have "distinct (map (\<lambda>m. (m_name m, m_date m))
      (filter P (filter (\<lambda>m. m_name m \<noteq> None \<and> m_date m \<noteq> None) ms)))"
    unfolding name_date_unique_def by (rule distinct_map_filter)
  then show ?thesis
    by (simp add: name_date_unique_def conj_commute)
qed

lemma update_movie_keeps:
  shows "map m_id (movies (snd (update_movie admits db i u))) = map m_id (movies db)"
    and "genres (snd (update_movie admits db i u)) = genres db"
    and "actors (snd (update_movie admits db i u)) = actors db"
    and "languages (snd (update_movie admits db i u)) = languages db"
    and "countries (snd (update_movie admits db i u)) = countries db"
    and "snd (update_movie admits db i u) = db \<or> admits (movies (snd (update_movie admits db i u)))"
  by (auto simp: update_movie_def commit_def Let_def foldl_setattr_keeps dest: selected_by_id(1)
      split: sum.splits option.splits if_splits)

lemma after_call_keeps:
  assumes "natural_keys_unique db"
  shows "natural_keys_unique (after_call admits db c)"
    and "related_grow db (after_call admits db c)"
    and "distinct (map m_id (movies db)) \<Longrightarrow> distinct (map m_id (movies (after_call admits db c)))"
proof -
  have "natural_keys_unique (after_call admits db c) \<and> related_grow db (after_call admits db c) \<and>
        (distinct (map m_id (movies db)) \<longrightarrow> distinct (map m_id (movies (after_call admits db c))))"
  proof (cases c)
    case (CreateFilm d)
    then show ?thesis using create_film_keeps(1-3)[OF assms] by simp
  next
    case (DeleteMovie i)
    have "distinct (map m_id (movies (snd (delete_movie db i))))"
      if "distinct (map m_id (movies db))"
      using delete_movie_keeps(1)[of db i] that by (auto simp: distinct_map_filter)
    then show ?thesis
      using DeleteMovie assms
      by (simp add: natural_keys_unique_def related_grow_def delete_movie_keeps(2-5))
  next
    case (UpdateMovie i u)
    then show ?thesis
      using assms by (simp add: natural_keys_unique_def related_grow_def update_movie_keeps)
  qed
  then show "natural_keys_unique (after_call admits db c)"
    and "related_grow db (after_call admits db c)"
    and "distinct (map m_id (movies db)) \<Longrightarrow> distinct (map m_id (movies (after_call admits db c)))"
    by simp_all
qed

lemma after_calls_keep:
  assumes "natural_keys_unique db"
  shows "natural_keys_unique (foldl (after_call admits) db cs)"
    and "related_grow db (foldl (after_call admits) db cs)"
    and "distinct (map m_id (movies db)) \<Longrightarrow>
           distinct (map m_id (movies (foldl (after_call admits) db cs)))"
proof -
  have "natural_keys_unique (foldl (after_call admits) db cs) \<and>
        related_grow db (foldl (after_call admits) db cs) \<and>
        (distinct (map m_id (movies db)) \<longrightarrow>
           distinct (map m_id (movies (foldl (after_call admits) db cs))))"
    using assms
  proof (induction cs arbitrary: db)
    case Nil
    then show ?case by (simp add: related_grow_refl)
  next
    case (Cons c cs)
    note step = after_call_keeps[OF Cons.prems, of admits c]
    from Cons.IH[OF step(1)] step(2,3) show ?case
      by (auto intro: related_grow_trans)
  qed
  then show "natural_keys_unique (foldl (after_call admits) db cs)"
    and "related_grow db (foldl (after_call admits) db cs)"
    and "distinct (map m_id (movies db)) \<Longrightarrow>
           distinct (map m_id (movies (foldl (after_call admits) db cs)))"
    by simp_all
qed

text \<open>
  The uniqueness of (name, date) is kept by creating and by deleting. Updating does
  not check it: it is kept by updating when the movie table's constraints imply it.
\<close>

lemma after_call_keeps_name_date:
  assumes "natural_keys_unique db" and "name_date_unique (movies db)"
    and "\<And>i u. c = UpdateMovie i u \<Longrightarrow> (\<forall>ms. admits ms \<longrightarrow> name_date_unique ms)"
  shows "name_date_unique (movies (after_call admits db c))"
proof (cases c)
  case (CreateFilm d)
  then show ?thesis using create_film_keeps(4)[OF assms(1,2)] by simp
next
  case (DeleteMovie i)
  then show ?thesis
    using delete_movie_keeps(1)[of db i] assms(2) by (auto simp: name_date_unique_filter)
next
  case (UpdateMovie i u)
  then show ?thesis
    using update_movie_keeps(6)[of admits db i u] assms(2,3) by auto
qed

lemma after_calls_keep_name_date:
  assumes "\<And>ms. admits ms \<Longrightarrow> name_date_unique ms"
    and "natural_keys_unique db" and "name_date_unique (movies db)"
  shows "name_date_unique (movies (foldl (after_call admits) db cs))"
  using assms(2,3)
proof (induction cs arbitrary: db)
  case Nil
  then show ?case by simp
next
  case (Cons c cs)
  have "name_date_unique (movies (after_call admits db c))"
    using Cons.prems assms(1) by (intro after_call_keeps_name_date) auto
  then show ?case
    using Cons.IH[OF after_call_keeps(1)[OF Cons.prems(1)]] by simp
qed

text \<open>
  So every database the service builds from the empty one has distinct movie ids and
  unique natural keys, and unique (name, date) pairs when the movie table's constraints
  imply them.
\<close>

lemma from_empty_keeps:
  shows "distinct (map m_id (movies (foldl (after_call admits) ex_empty cs)))"
    and "natural_keys_unique (foldl (after_call admits) ex_empty cs)"
    and "(\<And>ms. admits ms \<Longrightarrow> name_date_unique ms) \<Longrightarrow>
           name_date_unique (movies (foldl (after_call admits) ex_empty cs))"
proof -
  have nk: "natural_keys_unique ex_empty"
    by (simp add: natural_keys_unique_def ex_empty_def)
  have pk: "distinct (map m_id (movies ex_empty))"
    and nd: "name_date_unique (movies ex_empty)"
    by (simp_all add: ex_empty_def name_date_unique_def)
  show "distinct (map m_id (movies (foldl (after_call admits) ex_empty cs)))"
    using after_calls_keep(3)[OF nk pk] .
  show "natural_keys_unique (foldl (after_call admits) ex_empty cs)"
    using after_calls_keep(1)[OF nk] .
  show "name_date_unique (movies (foldl (after_call admits) ex_empty cs))"
    if "\<And>ms. admits ms \<Longrightarrow> name_date_unique ms"
    using after_calls_keep_name_date[OF that nk nd] .
qed

text \<open>
  A movie table that declares the release date NOT NULL rejects the payload that sets
  it to null: the call raises and the movie keeps its date.
\<close>

lemma ex_not_null_rejects:
  "update_movie (\<lambda>ms. list_all (\<lambda>m. m_date m \<noteq> None) ms) ex_db 3 ex_null_date =
     (Inl IntegrityError, ex_db)"
  by (subst update_movie_result[OF ex_pk ex_present ex_id3])
     (simp add: model_dump_exclude_unset_def entry_def ex_null_date_def ex_db_def ex_movie_def)

text \<open>Names that differ in case are different keys: each gets its row.\<close>

lemma ex_no_normalisation:
  "get_or_create_each n_id n_name new_named [] [''Action'', ''action''] =
     Inr ([\<lparr>n_id = 1, n_name = ''Action''\<rparr>, \<lparr>n_id = 2, n_name = ''action''\<rparr>],
          [\<lparr>n_id = 1, n_name = ''Action''\<rparr>, \<lparr>n_id = 2, n_name = ''action''\<rparr>])"
  by (simp add: get_or_create_def next_id_def new_named_def Let_def)

section \<open>Two creations share their related rows\<close>

lemma ex_first_create:
  "create_film any_table ex_empty ex_create = (Inr (Some (ex_movie 1 ''Dune'' 739252)), ex_db1)"
  by (simp add: create_film_def name_data_unique_validaton_def get_or_create_def next_id_def
        new_named_def new_country_def ex_empty_def ex_create_def ex_db1_def ex_movie_def
        ex_country_def commit_def any_table_def Let_def)

lemma ex_update_between:
  "foldl (after_call any_table) ex_db1 [UpdateMovie 1 ex_null_date] = ex_db1'"
  by (simp add: update_movie_def commit_def any_table_def model_dump_exclude_unset_def entry_def
        ex_null_date_def ex_db1_def ex_db1'_def ex_movie_def Let_def)

lemma ex_second_create:
  "create_film any_table ex_db1' ex_create2 = (Inr (Some ex_alien), ex_db2)"
  by (simp add: create_film_def name_data_unique_validaton_def get_or_create_def next_id_def
        new_named_def new_country_def ex_create2_def ex_create_def ex_db1'_def ex_db1_def
        ex_db2_def
        ex_alien_def ex_movie_def ex_country_def commit_def any_table_def Let_def)

text \<open>
  C3. Starting from a database whose natural keys are unique, take two successful
  creations, with any calls of the service between them. The table of each related
  entity then holds exactly one row for every genre, actor or language name both inputs
  carry, and for the country code when both inputs carry the same one, and both created
  movies hold that row. Keys are compared as they are written.
\<close>

theorem create_film_shared_rows:
  assumes "natural_keys_unique db0"
    and "create_film admits db0 d1 = (Inr r1, db1)"
    and "create_film admits (foldl (after_call admits) db1 cs) d2 = (Inr r2, db2)"
  shows "\<exists>m1 m2. r1 = Some m1 \<and> r2 = Some m2 \<and>
           m1 \<in> set (movies db1) \<and> m2 \<in> set (movies db2) \<and>
           (cs = [] \<longrightarrow> m1 \<in> set (movies db2) \<and> m_id m1 \<noteq> m_id m2) \<and>
           (\<forall>g \<in> set (c_genres d1) \<inter> set (c_genres d2).
              \<exists>r. filter (\<lambda>x. n_name x = g) (genres db2) = [r] \<and>
                  r \<in> set (m_genres m1) \<and> r \<in> set (m_genres m2)) \<and>
           (\<forall>a \<in> set (c_actors d1) \<inter> set (c_actors d2).
              \<exists>r. filter (\<lambda>x. n_name x = a) (actors db2) = [r] \<and>
                  r \<in> set (m_actors m1) \<and> r \<in> set (m_actors m2)) \<and>
           (\<forall>l \<in> set (c_languages d1) \<inter> set (c_languages d2).
              \<exists>r. filter (\<lambda>x. n_name x = l) (languages db2) = [r] \<and>
                  r \<in> set (m_languages m1) \<and> r \<in> set (m_languages m2)) \<and>
           (c_country d1 = c_country d2 \<longrightarrow>
              filter (\<lambda>x. k_code x = c_country d1) (countries db2) = [m_country m1] \<and>
              m_country m2 = m_country m1)"
proof -
  let ?mid = "foldl (after_call admits) db1 cs"
  obtain m1 gs1 as1 ls1 cs1 where one:
      "r1 = Some m1" "movies db1 = movies db0 @ [m1]"
      "map n_name (m_genres m1) = c_genres d1" "set (m_genres m1) \<subseteq> set (genres db1)"
      "map n_name (m_actors m1) = c_actors d1" "set (m_actors m1) \<subseteq> set (actors db1)"
      "map n_name (m_languages m1) = c_languages d1" "set (m_languages m1) \<subseteq> set (languages db1)"
      "k_code (m_country m1) = c_country d1" "m_country m1 \<in> set (countries db1)"
      "natural_keys_unique db1"
    using create_film_success[OF assms(1,2)] by blast
  have mid: "natural_keys_unique ?mid" "related_grow db1 ?mid"
    using after_calls_keep(1,2)[OF one(11)] by simp_all
  obtain m2 gs2 as2 ls2 cs2 where two:
      "r2 = Some m2" "movies db2 = movies ?mid @ [m2]" "m_id m2 \<notin> m_id ` set (movies ?mid)"
      "genres db2 = genres ?mid @ gs2" "actors db2 = actors ?mid @ as2"
      "languages db2 = languages ?mid @ ls2" "countries db2 = countries ?mid @ cs2"
      "map n_name (m_genres m2) = c_genres d2" "set (m_genres m2) \<subseteq> set (genres db2)"
      "map n_name (m_actors m2) = c_actors d2" "set (m_actors m2) \<subseteq> set (actors db2)"
      "map n_name (m_languages m2) = c_languages d2" "set (m_languages m2) \<subseteq> set (languages db2)"
      "k_code (m_country m2) = c_country d2" "m_country m2 \<in> set (countries db2)"
      "natural_keys_unique db2"
    using create_film_success[OF mid(1) assms(3)] by blast
  have dist: "distinct (map n_name (genres db2))" "distinct (map n_name (actors db2))"
    "distinct (map n_name (languages db2))" "distinct (map k_code (countries db2))"
    using two(16) by (simp_all add: natural_keys_unique_def)
  have ext: "set (genres db1) \<subseteq> set (genres db2)" "set (actors db1) \<subseteq> set (actors db2)"
    "set (languages db1) \<subseteq> set (languages db2)" "set (countries db1) \<subseteq> set (countries db2)"
    using two(4-7) mid(2) by (auto simp: related_grow_def)
  have mem: "m1 \<in> set (movies db1)" "m2 \<in> set (movies db2)"
    using one(2) two(2) by simp_all
  have consecutive: "m1 \<in> set (movies db2) \<and> m_id m1 \<noteq> m_id m2" if "cs = []"
    using that one(2) two(2,3) by auto
  have g: "\<exists>r. filter (\<lambda>x. n_name x = g) (genres db2) = [r] \<and>
               r \<in> set (m_genres m1) \<and> r \<in> set (m_genres m2)"
    if "g \<in> set (c_genres d1) \<inter> set (c_genres d2)" for g
    using that dist(1) one(4) ext(1) two(9)
    by (intro shared_key_rows[where ?tbl1.0 = "genres db1"]) (simp_all add: one(3) two(8))
  have a: "\<exists>r. filter (\<lambda>x. n_name x = a) (actors db2) = [r] \<and>
               r \<in> set (m_actors m1) \<and> r \<in> set (m_actors m2)"
    if "a \<in> set (c_actors d1) \<inter> set (c_actors d2)" for a
    using that dist(2) one(6) ext(2) two(11)
    by (intro shared_key_rows[where ?tbl1.0 = "actors db1"]) (simp_all add: one(5) two(10))
  have l: "\<exists>r. filter (\<lambda>x. n_name x = l) (languages db2) = [r] \<and>
               r \<in> set (m_languages m1) \<and> r \<in> set (m_languages m2)"
    if "l \<in> set (c_languages d1) \<inter> set (c_languages d2)" for l
    using that dist(3) one(8) ext(3) two(13)
    by (intro shared_key_rows[where ?tbl1.0 = "languages db1"]) (simp_all add: one(7) two(12))
  have c: "filter (\<lambda>x. k_code x = c_country d1) (countries db2) = [m_country m1] \<and>
           m_country m2 = m_country m1"
    if "c_country d1 = c_country d2"
    using that dist(4) one(9,10) ext(4) two(14,15)
    by (intro shared_key_row) auto
  show ?thesis
    using one(1) two(1) mem consecutive g a l c
    by (intro exI[of _ m1] exI[of _ m2]) blast
qed

theorem create_film_shared_rows_witness:
  "natural_keys_unique ex_empty \<and>
   create_film any_table ex_empty ex_create = (Inr (Some (ex_movie 1 ''Dune'' 739252)), ex_db1) \<and>
   create_film any_table (foldl (after_call any_table) ex_db1 [UpdateMovie 1 ex_null_date])
     ex_create2 = (Inr (Some ex_alien), ex_db2) \<and>
   ''Sci-Fi'' \<in> set (c_genres ex_create) \<inter> set (c_genres ex_create2) \<and>
   (\<exists>r. filter (\<lambda>x. n_name x = ''Sci-Fi'') (genres ex_db2) = [r] \<and>
        r \<in> set (m_genres (ex_movie 1 ''Dune'' 739252)) \<and> r \<in> set (m_genres ex_alien)) \<and>
   c_country ex_create = c_country ex_create2 \<and>
   filter (\<lambda>x. k_code x = ''US'') (countries ex_db2) = [m_country (ex_movie 1 ''Dune'' 739252)] \<and>
   m_country ex_alien = m_country (ex_movie 1 ''Dune'' 739252) \<and>
   length (genres ex_db2) = 2"
proof -
  have nk: "natural_keys_unique ex_empty"
    by (simp add: natural_keys_unique_def ex_empty_def)
  have second: "create_film any_table (foldl (after_call any_table) ex_db1 [UpdateMovie 1 ex_null_date])
     ex_create2 = (Inr (Some ex_alien), ex_db2)"
    by (simp only: ex_update_between ex_second_create)
  have shared: "''Sci-Fi'' \<in> set (c_genres ex_create) \<inter> set (c_genres ex_create2)"
    by (simp add: ex_create_def ex_create2_def)
  have country: "c_country ex_create = c_country ex_create2" "c_country ex_create = ''US''"
    by (simp_all add: ex_create_def ex_create2_def)
  have len: "length (genres ex_db2) = 2"
    by (simp add: ex_db2_def)
  from create_film_shared_rows[OF nk ex_first_create second] shared country
  have "(\<exists>r. filter (\<lambda>x. n_name x = ''Sci-Fi'') (genres ex_db2) = [r] \<and>
        r \<in> set (m_genres (ex_movie 1 ''Dune'' 739252)) \<and> r \<in> set (m_genres ex_alien)) \<and>
     filter (\<lambda>x. k_code x = ''US'') (countries ex_db2) = [m_country (ex_movie 1 ''Dune'' 739252)] \<and>
     m_country ex_alien = m_country (ex_movie 1 ''Dune'' 739252)"
    by auto
  then show ?thesis
    using nk ex_first_create second shared country len by simp
qed

end
